theory Spec2Isabelle
  imports Complex_Main "HOL-Library.Sublist"
begin

section \<open>Strings and runtime values\<close>

text \<open>
  Text is a \<open>string\<close> holding the UTF-8 bytes of the source's text; the Russian interface
  labels are therefore written as byte lists. Enum tokens, column names and icon presets
  are ASCII.

  \<open>includesStr s q\<close> is \<open>s.includes(q)\<close> of the runtime: \<open>q\<close> occurs in \<open>s\<close> as a contiguous
  run, searched from the left.
\<close>

fun includesStr :: "string \<Rightarrow> string \<Rightarrow> bool" where
  "includesStr [] q = (q = [])"
| "includesStr (c # cs) q = (prefix q (c # cs) \<or> includesStr cs q)"

text \<open>
  \<open>toLowerCase\<close> belongs to the runtime, not to the repository. The views take the
  lower-casing function as the parameter \<open>lc\<close>; \<open>toLowerCase\<close> below is its ASCII part
  (\<open>A\<close>..\<open>Z\<close> to \<open>a\<close>..\<open>z\<close>, every other byte kept) and is used for concrete runs.
\<close>

definition lowerChar :: "char \<Rightarrow> char" where
  "lowerChar c =
     (case map_of (zip ''ABCDEFGHIJKLMNOPQRSTUVWXYZ'' ''abcdefghijklmnopqrstuvwxyz'') c of
        Some l \<Rightarrow> l
      | None \<Rightarrow> c)"

definition toLowerCase :: "string \<Rightarrow> string" where
  "toLowerCase s = map lowerChar s"

text \<open>
  A value read out of an object literal by key is either one of the literal's own strings
  or something the literal inherits from \<open>Object.prototype\<close> (a function, or the prototype
  object itself under \<open>__proto__\<close>). Inherited values are objects and therefore truthy.
\<close>

datatype jsvalue = Str string | Inherited string

definition objectPrototypeKeys :: "string list" where
  "objectPrototypeKeys =
     [''constructor'', ''hasOwnProperty'', ''isPrototypeOf'', ''propertyIsEnumerable'',
      ''toLocaleString'', ''toString'', ''valueOf'', ''__proto__'',
      ''__defineGetter__'', ''__defineSetter__'', ''__lookupGetter__'', ''__lookupSetter__'']"

definition getProperty :: "(string \<times> string) list \<Rightarrow> string \<Rightarrow> jsvalue option" where
  "getProperty obj key =
     (case map_of obj key of
        Some v \<Rightarrow> Some (Str v)
      | None \<Rightarrow> if key \<in> set objectPrototypeKeys then Some (Inherited key) else None)"

text \<open>
  \<open>labels[key] || key\<close>: the value read when it is truthy (a string that is not empty, or
  any inherited object), the key otherwise.
\<close>

fun orKey :: "jsvalue option \<Rightarrow> string \<Rightarrow> jsvalue" where
  "orKey None key = Str key"
| "orKey (Some (Str s)) key = (if s \<noteq> [] then Str s else Str key)"
| "orKey (Some (Inherited k)) key = Inherited k"

section \<open>Data model\<close>

text \<open>The closed value sets of \<open>database.types.ts\<close> and of the CHECK constraints.\<close>

datatype TrashType = Plastic | Metal | Glass | Organic | Electronic | Mixed | Other

datatype Status = Reported | In_progress | Cleaned | Rejected

datatype Priority = Low | Medium | High

datatype LogLevel = Info | Warning | Error | Critical

fun trashTypeToken :: "TrashType \<Rightarrow> string" where
  "trashTypeToken Plastic = ''plastic''"
| "trashTypeToken Metal = ''metal''"
| "trashTypeToken Glass = ''glass''"
| "trashTypeToken Organic = ''organic''"
| "trashTypeToken Electronic = ''electronic''"
| "trashTypeToken Mixed = ''mixed''"
| "trashTypeToken Other = ''other''"

fun statusToken :: "Status \<Rightarrow> string" where
  "statusToken Reported = ''reported''"
| "statusToken In_progress = ''in_progress''"
| "statusToken Cleaned = ''cleaned''"
| "statusToken Rejected = ''rejected''"

fun priorityToken :: "Priority \<Rightarrow> string" where
  "priorityToken Low = ''low''"
| "priorityToken Medium = ''medium''"
| "priorityToken High = ''high''"

text \<open>
  The CHECK constraints of \<open>trash_locations\<close> on \<open>status\<close>, \<open>trash_type\<close> and \<open>priority\<close>:
  the value a token stands for, \<open>None\<close> for a token outside the set.
\<close>

definition statusOfToken :: "string \<Rightarrow> Status option" where
  "statusOfToken s =
     (if s = ''reported'' then Some Reported
      else if s = ''in_progress'' then Some In_progress
      else if s = ''cleaned'' then Some Cleaned
      else if s = ''rejected'' then Some Rejected
      else None)"

definition trashTypeOfToken :: "string \<Rightarrow> TrashType option" where
  "trashTypeOfToken s =
     (if s = ''plastic'' then Some Plastic
      else if s = ''metal'' then Some Metal
      else if s = ''glass'' then Some Glass
      else if s = ''organic'' then Some Organic
      else if s = ''electronic'' then Some Electronic
      else if s = ''mixed'' then Some Mixed
      else if s = ''other'' then Some Other
      else None)"

definition priorityOfToken :: "string \<Rightarrow> Priority option" where
  "priorityOfToken s =
     (if s = ''low'' then Some Low
      else if s = ''medium'' then Some Medium
      else if s = ''high'' then Some High
      else None)"

section \<open>Map view: presets, badge colours and labels\<close>

definition getMarkerPreset :: "string \<Rightarrow> string" where
  "getMarkerPreset status =
     (if status = ''reported'' then ''islands#redIcon''
      else if status = ''in_progress'' then ''islands#blueIcon''
      else if status = ''cleaned'' then ''islands#greenIcon''
      else if status = ''rejected'' then ''islands#grayIcon''
      else ''islands#redIcon'')"

definition trashTypeLabels :: "(string \<times> string) list" where
  "trashTypeLabels =
     [(''plastic'', [CHR 0xD0, CHR 0x9F, CHR 0xD0, CHR 0xBB, CHR 0xD0, CHR 0xB0, CHR 0xD1,
                     CHR 0x81, CHR 0xD1, CHR 0x82, CHR 0xD0, CHR 0xB8, CHR 0xD0, CHR 0xBA]),
      (''metal'', [CHR 0xD0, CHR 0x9C, CHR 0xD0, CHR 0xB5, CHR 0xD1, CHR 0x82, CHR 0xD0,
                   CHR 0xB0, CHR 0xD0, CHR 0xBB, CHR 0xD0, CHR 0xBB]),
      (''glass'', [CHR 0xD0, CHR 0xA1, CHR 0xD1, CHR 0x82, CHR 0xD0, CHR 0xB5, CHR 0xD0,
                   CHR 0xBA, CHR 0xD0, CHR 0xBB, CHR 0xD0, CHR 0xBE]),
      (''organic'', [CHR 0xD0, CHR 0x9E, CHR 0xD1, CHR 0x80, CHR 0xD0, CHR 0xB3, CHR 0xD0,
                     CHR 0xB0, CHR 0xD0, CHR 0xBD, CHR 0xD0, CHR 0xB8, CHR 0xD0, CHR 0xBA,
                     CHR 0xD0, CHR 0xB0]),
      (''electronic'', [CHR 0xD0, CHR 0xAD, CHR 0xD0, CHR 0xBB, CHR 0xD0, CHR 0xB5, CHR 0xD0,
                        CHR 0xBA, CHR 0xD1, CHR 0x82, CHR 0xD1, CHR 0x80, CHR 0xD0, CHR 0xBE,
                        CHR 0xD0, CHR 0xBD, CHR 0xD0, CHR 0xB8, CHR 0xD0, CHR 0xBA, CHR 0xD0,
                        CHR 0xB0]),
      (''mixed'', [CHR 0xD0, CHR 0xA1, CHR 0xD0, CHR 0xBC, CHR 0xD0, CHR 0xB5, CHR 0xD1,
                   CHR 0x88, CHR 0xD0, CHR 0xB0, CHR 0xD0, CHR 0xBD, CHR 0xD0, CHR 0xBD,
                   CHR 0xD1, CHR 0x8B, CHR 0xD0, CHR 0xB9]),
      (''other'', [CHR 0xD0, CHR 0x94, CHR 0xD1, CHR 0x80, CHR 0xD1, CHR 0x83, CHR 0xD0,
                   CHR 0xB3, CHR 0xD0, CHR 0xBE, CHR 0xD0, CHR 0xB5])]"

definition getTrashTypeLabel :: "string \<Rightarrow> jsvalue" where
  "getTrashTypeLabel type = orKey (getProperty trashTypeLabels type) type"

definition statusLabels :: "(string \<times> string) list" where
  "statusLabels =
     [(''reported'', [CHR 0xD0, CHR 0xA1, CHR 0xD0, CHR 0xBE, CHR 0xD0, CHR 0xBE, CHR 0xD0,
                      CHR 0xB1, CHR 0xD1, CHR 0x89, CHR 0xD0, CHR 0xB5, CHR 0xD0, CHR 0xBD,
                      CHR 0xD0, CHR 0xBE]),
      (''in_progress'', [CHR 0xD0, CHR 0x92, CHR 0x20, CHR 0xD1, CHR 0x80, CHR 0xD0, CHR 0xB0,
                         CHR 0xD0, CHR 0xB1, CHR 0xD0, CHR 0xBE, CHR 0xD1, CHR 0x82, CHR 0xD0,
                         CHR 0xB5]),
      (''cleaned'', [CHR 0xD0, CHR 0x9E, CHR 0xD1, CHR 0x87, CHR 0xD0, CHR 0xB8, CHR 0xD1,
                     CHR 0x89, CHR 0xD0, CHR 0xB5, CHR 0xD0, CHR 0xBD, CHR 0xD0, CHR 0xBE]),
      (''rejected'', [CHR 0xD0, CHR 0x9E, CHR 0xD1, CHR 0x82, CHR 0xD0, CHR 0xBA, CHR 0xD0,
                      CHR 0xBB, CHR 0xD0, CHR 0xBE, CHR 0xD0, CHR 0xBD, CHR 0xD0, CHR 0xB5,
                      CHR 0xD0, CHR 0xBD, CHR 0xD0, CHR 0xBE])]"

definition getStatusLabel :: "string \<Rightarrow> jsvalue" where
  "getStatusLabel status = orKey (getProperty statusLabels status) status"

definition getStatusBadgeColor :: "string \<Rightarrow> string" where
  "getStatusBadgeColor status =
     (if status = ''reported'' then ''bg-red-100 text-red-800''
      else if status = ''in_progress'' then ''bg-blue-100 text-blue-800''
      else if status = ''cleaned'' then ''bg-green-100 text-green-800''
      else if status = ''rejected'' then ''bg-gray-100 text-gray-800''
      else ''bg-gray-100 text-gray-800'')"

definition getPriorityBadgeColor :: "string \<Rightarrow> string" where
  "getPriorityBadgeColor priority =
     (if priority = ''high'' then ''bg-red-100 text-red-800''
      else if priority = ''medium'' then ''bg-yellow-100 text-yellow-800''
      else if priority = ''low'' then ''bg-green-100 text-green-800''
      else ''bg-gray-100 text-gray-800'')"

definition priorityLabels :: "(string \<times> string) list" where
  "priorityLabels =
     [(''high'', [CHR 0xD0, CHR 0x92, CHR 0xD1, CHR 0x8B, CHR 0xD1, CHR 0x81, CHR 0xD0,
                  CHR 0xBE, CHR 0xD0, CHR 0xBA, CHR 0xD0, CHR 0xB8, CHR 0xD0, CHR 0xB9]),
      (''medium'', [CHR 0xD0, CHR 0xA1, CHR 0xD1, CHR 0x80, CHR 0xD0, CHR 0xB5, CHR 0xD0,
                    CHR 0xB4, CHR 0xD0, CHR 0xBD, CHR 0xD0, CHR 0xB8, CHR 0xD0, CHR 0xB9]),
      (''low'', [CHR 0xD0, CHR 0x9D, CHR 0xD0, CHR 0xB8, CHR 0xD0, CHR 0xB7, CHR 0xD0,
                 CHR 0xBA, CHR 0xD0, CHR 0xB8, CHR 0xD0, CHR 0xB9])]"

definition getPriorityLabel :: "string \<Rightarrow> jsvalue" where
  "getPriorityLabel priority = orKey (getProperty priorityLabels priority) priority"

text \<open>
  The "change status" block of the detail panel: the targets of the buttons rendered for
  a record whose status is \<open>status\<close>, top to bottom. Each button calls
  \<open>handleStatusChange\<close> with the record's id and its target token.
\<close>

definition statusButtons :: "Status \<Rightarrow> string list" where
  "statusButtons status =
     (if statusToken status \<noteq> ''in_progress'' then [''in_progress''] else []) @
     (if statusToken status \<noteq> ''cleaned'' then [''cleaned''] else []) @
     (if statusToken status \<noteq> ''rejected'' then [''rejected''] else [])"

section \<open>Rows\<close>

text \<open>
  The \<open>Row\<close> types of \<open>database.types.ts\<close>. A field is named after its column, behind the
  initials of its table, since the tables share column names. Timestamps are clock
  readings (milliseconds); latitude and longitude are decimal numbers.
\<close>

type_synonym timestamp = nat

datatype Json = JNull | JBool bool | JNumber real | JString string
  | JArray "Json list" | JObject "(string \<times> Json) list"

record ProjectUser =
  pu_id :: string
  pu_email :: string
  pu_full_name :: string
  pu_phone :: "string option"
  pu_is_active :: bool
  pu_reports_count :: int
  pu_created_at :: timestamp
  pu_updated_at :: timestamp

record TrashLocation =
  tl_id :: string
  tl_user_id :: "string option"
  tl_latitude :: real
  tl_longitude :: real
  tl_description :: string
  tl_trash_type :: TrashType
  tl_status :: Status
  tl_priority :: Priority
  tl_image_url :: "string option"
  tl_created_at :: timestamp
  tl_updated_at :: timestamp
  tl_cleaned_at :: "timestamp option"

record SystemLog =
  sl_id :: string
  sl_log_level :: LogLevel
  sl_action :: string
  sl_user_id :: "string option"
  sl_entity_type :: "string option"
  sl_entity_id :: "string option"
  sl_details :: Json
  sl_ip_address :: "string option"
  sl_created_at :: timestamp

text \<open>
  The \<open>Update\<close> types: every column optional, \<open>None\<close> for a key the patch does not carry.
  A nullable column has a second \<open>option\<close> for the value \<open>null\<close>. The status of a
  location patch is the raw token, as \<open>handleStatusChange\<close> builds it (\<open>updates: any\<close>).
\<close>

record ProjectUserUpdate =
  puu_id :: "string option"
  puu_email :: "string option"
  puu_full_name :: "string option"
  puu_phone :: "string option option"
  puu_is_active :: "bool option"
  puu_reports_count :: "int option"
  puu_created_at :: "timestamp option"
  puu_updated_at :: "timestamp option"

record TrashLocationUpdate =
  tlu_id :: "string option"
  tlu_user_id :: "string option option"
  tlu_latitude :: "real option"
  tlu_longitude :: "real option"
  tlu_description :: "string option"
  tlu_trash_type :: "TrashType option"
  tlu_status :: "string option"
  tlu_priority :: "Priority option"
  tlu_image_url :: "string option option"
  tlu_created_at :: "timestamp option"
  tlu_updated_at :: "timestamp option"
  tlu_cleaned_at :: "timestamp option option"

text \<open>The \<open>Insert\<close> type of \<open>trash_locations\<close>: four required columns, the others optional.\<close>

record TrashLocationInsert =
  tli_id :: "string option"
  tli_user_id :: "string option"
  tli_latitude :: real
  tli_longitude :: real
  tli_description :: string
  tli_trash_type :: TrashType
  tli_status :: "Status option"
  tli_priority :: "Priority option"
  tli_image_url :: "string option"
  tli_created_at :: "timestamp option"
  tli_updated_at :: "timestamp option"
  tli_cleaned_at :: "timestamp option"

record Database =
  project_users :: "ProjectUser list"
  trash_locations :: "TrashLocation list"
  system_logs :: "SystemLog list"

section \<open>Backend\<close>

text \<open>
  Modelled from the spec: the backend client (\<open>supabase\<close>, imported from \<open>../lib/supabase\<close>)
  and the hosted service behind it are not among the sources. The spec describes the
  collaborator as four tables reachable by select-all-with-filter-and-order, insert-one
  and update-by-identity. What a call does when it succeeds is written out below from
  that description, from the request the view builds and from the schema of the
  migration; whether it succeeds is not decided here: every call takes a \<open>fault\<close>, and a
  call with a fault leaves the tables as they are. \<open>ErrorResult e\<close> is a reply whose
  \<open>error\<close> field is set (refused by a policy, a constraint, the server); \<open>Rejects e\<close> is a
  promise that rejects.
\<close>

datatype fault = NoFault | ErrorResult string | Rejects string

datatype 'a reply = Reply "'a option" "string option" | RejectedWith string

definition faultText :: "fault \<Rightarrow> string" where
  "faultText f = (case f of NoFault \<Rightarrow> [] | ErrorResult e \<Rightarrow> e | Rejects e \<Rightarrow> e)"

record 'r Query =
  q_eq :: "('r \<Rightarrow> bool) list"
  q_orderDesc :: "('r \<Rightarrow> timestamp) option"
  q_limit :: "nat option"

definition selectAll :: "'r Query" where
  "selectAll = \<lparr>q_eq = [], q_orderDesc = None, q_limit = None\<rparr>"

definition orderDesc :: "('r \<Rightarrow> timestamp) \<Rightarrow> 'r Query \<Rightarrow> 'r Query" where
  "orderDesc col q = q\<lparr>q_orderDesc := Some col\<rparr>"

definition limit :: "nat \<Rightarrow> 'r Query \<Rightarrow> 'r Query" where
  "limit n q = q\<lparr>q_limit := Some n\<rparr>"

definition eq :: "('r \<Rightarrow> 'c) \<Rightarrow> 'c \<Rightarrow> 'r Query \<Rightarrow> 'r Query" where
  "eq col v q = q\<lparr>q_eq := q_eq q @ [\<lambda>r. col r = v]\<rparr>"

text \<open>
  Modelled from the spec: the answer to a select. The builder only collects request
  parameters, so the order of its calls does not matter: the server keeps the rows
  passing every \<open>eq\<close> (a "server-side equality filter"), orders them by the given column,
  descending, and cuts the result at the limit (the log view "caps the result at the 100
  most recent rows").
\<close>

definition selectRows :: "'r Query \<Rightarrow> 'r list \<Rightarrow> 'r list" where
  "selectRows q tbl =
     (let matching = filter (\<lambda>r. list_all (\<lambda>p. p r) (q_eq q)) tbl;
          ordered = (case q_orderDesc q of None \<Rightarrow> matching
                     | Some col \<Rightarrow> rev (sort_key col matching))
      in case q_limit q of None \<Rightarrow> ordered | Some n \<Rightarrow> take n ordered)"

definition selectReply :: "fault \<Rightarrow> 'r list \<Rightarrow> 'r list reply" where
  "selectReply f rows =
     (case f of NoFault \<Rightarrow> Reply (Some rows) None
      | ErrorResult e \<Rightarrow> Reply None (Some e)
      | Rejects e \<Rightarrow> RejectedWith e)"

definition failureReply :: "fault \<Rightarrow> unit reply" where
  "failureReply f =
     (case f of NoFault \<Rightarrow> Reply None None
      | ErrorResult e \<Rightarrow> Reply None (Some e)
      | Rejects e \<Rightarrow> RejectedWith e)"

definition patch :: "'a option \<Rightarrow> 'a \<Rightarrow> 'a" where
  "patch new old = (case new of None \<Rightarrow> old | Some v \<Rightarrow> v)"

definition applyUserUpdate :: "ProjectUserUpdate \<Rightarrow> ProjectUser \<Rightarrow> ProjectUser" where
  "applyUserUpdate p u =
     \<lparr>pu_id = patch (puu_id p) (pu_id u),
      pu_email = patch (puu_email p) (pu_email u),
      pu_full_name = patch (puu_full_name p) (pu_full_name u),
      pu_phone = patch (puu_phone p) (pu_phone u),
      pu_is_active = patch (puu_is_active p) (pu_is_active u),
      pu_reports_count = patch (puu_reports_count p) (pu_reports_count u),
      pu_created_at = patch (puu_created_at p) (pu_created_at u),
      pu_updated_at = patch (puu_updated_at p) (pu_updated_at u)\<rparr>"

text \<open>
  Modelled from the spec: update-by-identity, \<open>.update(p).eq('id', userId)\<close> on
  \<open>project_users\<close>. Every row with the id takes the columns the patch carries.
\<close>

definition updateUsers ::
  "fault \<Rightarrow> ProjectUserUpdate \<Rightarrow> string \<Rightarrow> Database \<Rightarrow> Database \<times> unit reply" where
  "updateUsers f p userId d =
     (if f \<noteq> NoFault then (d, failureReply f)
      else (d\<lparr>project_users :=
                map (\<lambda>u. if pu_id u = userId then applyUserUpdate p u else u) (project_users d)\<rparr>,
            Reply None None))"

text \<open>
  Modelled from the spec: insert-one, \<open>.insert([form])\<close> on \<open>project_users\<close>. The columns
  the form does not carry take the defaults of the schema (\<open>gen_random_uuid()\<close>, \<open>true\<close>,
  \<open>0\<close>, \<open>now()\<close>); the new id and the server's clock reading are parameters.
\<close>

record NewUserForm =
  nf_email :: string
  nf_full_name :: string
  nf_phone :: string

definition insertUser ::
  "fault \<Rightarrow> string \<Rightarrow> timestamp \<Rightarrow> NewUserForm \<Rightarrow> Database \<Rightarrow> Database \<times> unit reply" where
  "insertUser f newId serverNow form d =
     (if f \<noteq> NoFault then (d, failureReply f)
      else (d\<lparr>project_users := project_users d @
                [\<lparr>pu_id = newId, pu_email = nf_email form, pu_full_name = nf_full_name form,
                  pu_phone = Some (nf_phone form), pu_is_active = True, pu_reports_count = 0,
                  pu_created_at = serverNow, pu_updated_at = serverNow\<rparr>]\<rparr>,
            Reply None None))"

text \<open>
  A patch of a location row. The CHECK constraint of the \<open>status\<close> column refuses a token
  outside the four values: the patched row is then \<open>None\<close>.
\<close>

definition applyLocationUpdate :: "TrashLocationUpdate \<Rightarrow> TrashLocation \<Rightarrow> TrashLocation option" where
  "applyLocationUpdate p l =
     (case (case tlu_status p of None \<Rightarrow> Some (tl_status l) | Some tok \<Rightarrow> statusOfToken tok) of
        None \<Rightarrow> None
      | Some st \<Rightarrow>
          Some \<lparr>tl_id = patch (tlu_id p) (tl_id l),
                tl_user_id = patch (tlu_user_id p) (tl_user_id l),
                tl_latitude = patch (tlu_latitude p) (tl_latitude l),
                tl_longitude = patch (tlu_longitude p) (tl_longitude l),
                tl_description = patch (tlu_description p) (tl_description l),
                tl_trash_type = patch (tlu_trash_type p) (tl_trash_type l),
                tl_status = st,
                tl_priority = patch (tlu_priority p) (tl_priority l),
                tl_image_url = patch (tlu_image_url p) (tl_image_url l),
                tl_created_at = patch (tlu_created_at p) (tl_created_at l),
                tl_updated_at = patch (tlu_updated_at p) (tl_updated_at l),
                tl_cleaned_at = patch (tlu_cleaned_at p) (tl_cleaned_at l)\<rparr>)"

text \<open>
  Modelled from the spec: update-by-identity, \<open>.update(p).eq('id', locationId)\<close> on
  \<open>trash_locations\<close>. The statement is atomic: when the constraint refuses one patched
  row, no row changes and the reply carries the error.
\<close>

definition updateLocations ::
  "fault \<Rightarrow> TrashLocationUpdate \<Rightarrow> string \<Rightarrow> Database \<Rightarrow> Database \<times> unit reply" where
  "updateLocations f p locationId d =
     (if f \<noteq> NoFault then (d, failureReply f)
      else if list_ex (\<lambda>l. tl_id l = locationId \<and> applyLocationUpdate p l = None)
                (trash_locations d)
      then (d, Reply None (Some ''new row violates check constraint''))
      else (d\<lparr>trash_locations :=
                map (\<lambda>l. if tl_id l = locationId
                          then (case applyLocationUpdate p l of Some l' \<Rightarrow> l' | None \<Rightarrow> l)
                          else l)
                  (trash_locations d)\<rparr>,
            Reply None None))"

text \<open>
  A row inserted into \<open>trash_locations\<close>, by the column defaults of the schema: \<open>status\<close>
  defaults to \<open>reported\<close>, \<open>priority\<close> to \<open>medium\<close>, the two time columns to \<open>now()\<close>, the
  id to a generated one; \<open>user_id\<close>, \<open>image_url\<close> and \<open>cleaned_at\<close> have no default.
\<close>

definition insertedLocation :: "string \<Rightarrow> timestamp \<Rightarrow> TrashLocationInsert \<Rightarrow> TrashLocation" where
  "insertedLocation newId serverNow i =
     \<lparr>tl_id = patch (tli_id i) newId,
      tl_user_id = tli_user_id i,
      tl_latitude = tli_latitude i,
      tl_longitude = tli_longitude i,
      tl_description = tli_description i,
      tl_trash_type = tli_trash_type i,
      tl_status = patch (tli_status i) Reported,
      tl_priority = patch (tli_priority i) Medium,
      tl_image_url = tli_image_url i,
      tl_created_at = patch (tli_created_at i) serverNow,
      tl_updated_at = patch (tli_updated_at i) serverNow,
      tl_cleaned_at = tli_cleaned_at i\<rparr>"

section \<open>Handlers, exceptions and the console\<close>

text \<open>
  A handler runs on a world: the backend's tables, the console and the state of the view
  it belongs to. It completes normally or by a thrown error; either way the world it has
  reached so far is kept, as state set before a \<open>throw\<close> is.
\<close>

record 'v World =
  database :: Database
  console :: "(string \<times> string) list"
  view :: 'v

datatype 'w completion = Normal 'w | Thrown string 'w

definition worldOf :: "'w completion \<Rightarrow> 'w" where
  "worldOf c = (case c of Normal w \<Rightarrow> w | Thrown e w \<Rightarrow> w)"

definition seq :: "('w \<Rightarrow> 'w completion) \<Rightarrow> ('w \<Rightarrow> 'w completion) \<Rightarrow> 'w \<Rightarrow> 'w completion" where
  "seq f g w = (case f w of Normal w' \<Rightarrow> g w' | Thrown e w' \<Rightarrow> Thrown e w')"

definition tryCatch ::
  "('w \<Rightarrow> 'w completion) \<Rightarrow> (string \<Rightarrow> 'w \<Rightarrow> 'w completion) \<Rightarrow> 'w \<Rightarrow> 'w completion" where
  "tryCatch body handler w =
     (case body w of Normal w' \<Rightarrow> Normal w' | Thrown e w' \<Rightarrow> handler e w')"

definition tryFinally ::
  "('w \<Rightarrow> 'w completion) \<Rightarrow> ('w \<Rightarrow> 'w completion) \<Rightarrow> 'w \<Rightarrow> 'w completion" where
  "tryFinally body cleanup w =
     (case body w of
        Normal w' \<Rightarrow> cleanup w'
      | Thrown e w' \<Rightarrow>
          (case cleanup w' of Normal w'' \<Rightarrow> Thrown e w'' | Thrown e' w'' \<Rightarrow> Thrown e' w''))"

text \<open>\<open>console.error(msg, error)\<close>\<close>

definition consoleError :: "string \<Rightarrow> string \<Rightarrow> 'v World \<Rightarrow> 'v World completion" where
  "consoleError msg e w = Normal (w\<lparr>console := console w @ [(msg, e)]\<rparr>)"

text \<open>\<open>const { data, error } = await call; if (error) throw error;\<close> then the continuation.\<close>

definition awaitOrThrow ::
  "'a reply \<Rightarrow> ('a option \<Rightarrow> 'w \<Rightarrow> 'w completion) \<Rightarrow> 'w \<Rightarrow> 'w completion" where
  "awaitOrThrow r k w =
     (case r of
        RejectedWith e \<Rightarrow> Thrown e w
      | Reply d err \<Rightarrow> (case err of Some e \<Rightarrow> Thrown e w | None \<Rightarrow> k d w))"

text \<open>\<open>data || []\<close>\<close>

definition orEmpty :: "'a list option \<Rightarrow> 'a list" where
  "orEmpty d = (case d of None \<Rightarrow> [] | Some rows \<Rightarrow> rows)"

section \<open>Users view\<close>

record UsersView =
  uv_users :: "ProjectUser list"
  uv_loading :: bool
  uv_searchQuery :: string
  uv_editingUser :: "ProjectUser option"
  uv_editForm :: ProjectUserUpdate
  uv_showAddForm :: bool
  uv_newUserForm :: NewUserForm

definition emptyUserUpdate :: ProjectUserUpdate where
  "emptyUserUpdate =
     \<lparr>puu_id = None, puu_email = None, puu_full_name = None, puu_phone = None,
      puu_is_active = None, puu_reports_count = None, puu_created_at = None,
      puu_updated_at = None\<rparr>"

definition emptyNewUserForm :: NewUserForm where
  "emptyNewUserForm = \<lparr>nf_email = [], nf_full_name = [], nf_phone = []\<rparr>"

text \<open>The state the component mounts with.\<close>

definition initialUsersView :: UsersView where
  "initialUsersView =
     \<lparr>uv_users = [], uv_loading = True, uv_searchQuery = [], uv_editingUser = None,
      uv_editForm = emptyUserUpdate, uv_showAddForm = False, uv_newUserForm = emptyNewUserForm\<rparr>"

definition setUsersLoading :: "bool \<Rightarrow> UsersView World \<Rightarrow> UsersView World completion" where
  "setUsersLoading b w = Normal (w\<lparr>view := (view w)\<lparr>uv_loading := b\<rparr>\<rparr>)"

definition setUsers :: "ProjectUser list \<Rightarrow> UsersView World \<Rightarrow> UsersView World completion" where
  "setUsers rows w = Normal (w\<lparr>view := (view w)\<lparr>uv_users := rows\<rparr>\<rparr>)"

definition fetchUsers :: "fault \<Rightarrow> UsersView World \<Rightarrow> UsersView World completion" where
  "fetchUsers f =
     seq (setUsersLoading True)
       (tryFinally
          (tryCatch
             (\<lambda>w. awaitOrThrow
                     (selectReply f
                        (selectRows (orderDesc pu_created_at selectAll)
                           (project_users (database w))))
                     (\<lambda>d. setUsers (orEmpty d)) w)
             (consoleError ''Error fetching users:''))
          (setUsersLoading False))"

text \<open>
  \<open>handleToggleActive(userId, currentStatus)\<close>. \<open>now\<close> is the reading of \<open>new Date()\<close>;
  \<open>fUpdate\<close> and \<open>fFetch\<close> are the faults of the update and of the fetch after it.
\<close>

definition handleToggleActive ::
  "fault \<Rightarrow> fault \<Rightarrow> timestamp \<Rightarrow> string \<Rightarrow> bool \<Rightarrow> UsersView World \<Rightarrow> UsersView World completion"
  where
  "handleToggleActive fUpdate fFetch now userId currentStatus =
     tryCatch
       (\<lambda>w. case updateUsers fUpdate
                   (emptyUserUpdate\<lparr>puu_is_active := Some (\<not> currentStatus),
                                    puu_updated_at := Some now\<rparr>)
                   userId (database w) of
               (d', r) \<Rightarrow> awaitOrThrow r (\<lambda>_. fetchUsers fFetch) (w\<lparr>database := d'\<rparr>))
       (consoleError ''Error toggling user status:'')"

text \<open>
  The toggle button of a listed row: \<open>onClick={() => handleToggleActive(user.id,
  user.is_active)}\<close>, with the row as the view holds it.
\<close>

definition clickToggle ::
  "fault \<Rightarrow> fault \<Rightarrow> timestamp \<Rightarrow> ProjectUser \<Rightarrow> UsersView World \<Rightarrow> UsersView World completion"
  where
  "clickToggle fUpdate fFetch now user =
     handleToggleActive fUpdate fFetch now (pu_id user) (pu_is_active user)"

definition updateOfUser :: "ProjectUser \<Rightarrow> ProjectUserUpdate" where
  "updateOfUser u =
     \<lparr>puu_id = Some (pu_id u), puu_email = Some (pu_email u),
      puu_full_name = Some (pu_full_name u), puu_phone = Some (pu_phone u),
      puu_is_active = Some (pu_is_active u), puu_reports_count = Some (pu_reports_count u),
      puu_created_at = Some (pu_created_at u), puu_updated_at = Some (pu_updated_at u)\<rparr>"

definition handleEditClick :: "ProjectUser \<Rightarrow> UsersView World \<Rightarrow> UsersView World completion" where
  "handleEditClick user w =
     Normal (w\<lparr>view := (view w)\<lparr>uv_editingUser := Some user, uv_editForm := updateOfUser user\<rparr>\<rparr>)"

definition closeEdit :: "UsersView World \<Rightarrow> UsersView World completion" where
  "closeEdit w =
     Normal (w\<lparr>view := (view w)\<lparr>uv_editingUser := None, uv_editForm := emptyUserUpdate\<rparr>\<rparr>)"

definition handleSaveEdit ::
  "fault \<Rightarrow> fault \<Rightarrow> timestamp \<Rightarrow> UsersView World \<Rightarrow> UsersView World completion" where
  "handleSaveEdit fUpdate fFetch now w =
     (case uv_editingUser (view w) of
        None \<Rightarrow> Normal w
      | Some editingUser \<Rightarrow>
          tryCatch
            (\<lambda>w. case updateUsers fUpdate
                        ((uv_editForm (view w))\<lparr>puu_updated_at := Some now\<rparr>)
                        (pu_id editingUser) (database w) of
                    (d', r) \<Rightarrow>
                      awaitOrThrow r (\<lambda>_. seq (fetchUsers fFetch) closeEdit)
                        (w\<lparr>database := d'\<rparr>))
            (consoleError ''Error updating user:'') w)"

definition closeAddForm :: "UsersView World \<Rightarrow> UsersView World completion" where
  "closeAddForm w =
     Normal (w\<lparr>view := (view w)\<lparr>uv_showAddForm := False, uv_newUserForm := emptyNewUserForm\<rparr>\<rparr>)"

text \<open>
  \<open>handleAddUser\<close>, the submit handler of the add form. \<open>newId\<close> and \<open>serverNow\<close> are the
  id and the clock reading the backend gives the new row.
\<close>

definition handleAddUser ::
  "fault \<Rightarrow> fault \<Rightarrow> string \<Rightarrow> timestamp \<Rightarrow> UsersView World \<Rightarrow> UsersView World completion" where
  "handleAddUser fInsert fFetch newId serverNow =
     tryCatch
       (\<lambda>w. case insertUser fInsert newId serverNow (uv_newUserForm (view w)) (database w) of
               (d', r) \<Rightarrow>
                 awaitOrThrow r (\<lambda>_. seq (fetchUsers fFetch) closeAddForm)
                   (w\<lparr>database := d'\<rparr>))
       (consoleError ''Error adding user:'')"

text \<open>
  The displayed subset. \<open>user.phone?.toLowerCase().includes(...)\<close> is \<open>undefined\<close>, hence
  false, for a row without a phone.
\<close>

definition userMatches :: "(string \<Rightarrow> string) \<Rightarrow> string \<Rightarrow> ProjectUser \<Rightarrow> bool" where
  "userMatches lc searchQuery user =
     (includesStr (lc (pu_full_name user)) (lc searchQuery) \<or>
      includesStr (lc (pu_email user)) (lc searchQuery) \<or>
      (case pu_phone user of None \<Rightarrow> False
       | Some phone \<Rightarrow> includesStr (lc phone) (lc searchQuery)))"

definition filteredUsers :: "(string \<Rightarrow> string) \<Rightarrow> UsersView \<Rightarrow> ProjectUser list" where
  "filteredUsers lc v = filter (userMatches lc (uv_searchQuery v)) (uv_users v)"

section \<open>Map view\<close>

text \<open>
  A fetched location is the row together with the reporting user's name, joined by the
  server (\<open>select('*, project_users(full_name)')\<close>).
\<close>

record TrashLocationJoined = TrashLocation +
  tl_project_users :: "string option"

definition joinUser :: "ProjectUser list \<Rightarrow> TrashLocation \<Rightarrow> TrashLocationJoined" where
  "joinUser us l =
     \<lparr>tl_id = tl_id l, tl_user_id = tl_user_id l, tl_latitude = tl_latitude l,
      tl_longitude = tl_longitude l, tl_description = tl_description l,
      tl_trash_type = tl_trash_type l, tl_status = tl_status l, tl_priority = tl_priority l,
      tl_image_url = tl_image_url l, tl_created_at = tl_created_at l,
      tl_updated_at = tl_updated_at l, tl_cleaned_at = tl_cleaned_at l,
      tl_project_users =
        (case tl_user_id l of None \<Rightarrow> None
         | Some uid \<Rightarrow> map_option pu_full_name (find (\<lambda>u. pu_id u = uid) us))\<rparr>"

datatype StatusFilter = AllStatuses | OnlyStatus Status

record MapView =
  mv_locations :: "TrashLocationJoined list"
  mv_loading :: bool
  mv_statusFilter :: StatusFilter
  mv_selectedLocation :: "TrashLocationJoined option"

definition initialMapView :: MapView where
  "initialMapView =
     \<lparr>mv_locations = [], mv_loading = True, mv_statusFilter = AllStatuses,
      mv_selectedLocation = None\<rparr>"

definition setMapLoading :: "bool \<Rightarrow> MapView World \<Rightarrow> MapView World completion" where
  "setMapLoading b w = Normal (w\<lparr>view := (view w)\<lparr>mv_loading := b\<rparr>\<rparr>)"

definition setLocations ::
  "TrashLocationJoined list \<Rightarrow> MapView World \<Rightarrow> MapView World completion" where
  "setLocations rows w = Normal (w\<lparr>view := (view w)\<lparr>mv_locations := rows\<rparr>\<rparr>)"

definition setSelectedLocation ::
  "TrashLocationJoined option \<Rightarrow> MapView World \<Rightarrow> MapView World completion" where
  "setSelectedLocation sel w = Normal (w\<lparr>view := (view w)\<lparr>mv_selectedLocation := sel\<rparr>\<rparr>)"

definition locationsQuery :: "StatusFilter \<Rightarrow> TrashLocation Query" where
  "locationsQuery statusFilter =
     (let query = orderDesc tl_created_at selectAll
      in case statusFilter of AllStatuses \<Rightarrow> query | OnlyStatus st \<Rightarrow> eq tl_status st query)"

definition fetchLocations :: "fault \<Rightarrow> MapView World \<Rightarrow> MapView World completion" where
  "fetchLocations f =
     seq (setMapLoading True)
       (tryFinally
          (tryCatch
             (\<lambda>w. awaitOrThrow
                     (selectReply f
                        (map (joinUser (project_users (database w)))
                           (selectRows (locationsQuery (mv_statusFilter (view w)))
                              (trash_locations (database w)))))
                     (\<lambda>d. setLocations (orEmpty d)) w)
             (consoleError ''Error fetching locations:''))
          (setMapLoading False))"

text \<open>The descriptor \<open>updateMapMarkers\<close> hands to the map widget for one location.\<close>

record Placemark =
  pm_coordinates :: "real \<times> real"
  pm_description :: string
  pm_typeLabel :: jsvalue
  pm_statusLabel :: jsvalue
  pm_preset :: string

definition placemarkOf :: "TrashLocationJoined \<Rightarrow> Placemark" where
  "placemarkOf location =
     \<lparr>pm_coordinates = (tl_latitude location, tl_longitude location),
      pm_description = tl_description location,
      pm_typeLabel = getTrashTypeLabel (trashTypeToken (tl_trash_type location)),
      pm_statusLabel = getStatusLabel (statusToken (tl_status location)),
      pm_preset = getMarkerPreset (statusToken (tl_status location))\<rparr>"

definition updateMapMarkers :: "MapView \<Rightarrow> Placemark list" where
  "updateMapMarkers v = map placemarkOf (mv_locations v)"

definition emptyLocationUpdate :: TrashLocationUpdate where
  "emptyLocationUpdate =
     \<lparr>tlu_id = None, tlu_user_id = None, tlu_latitude = None, tlu_longitude = None,
      tlu_description = None, tlu_trash_type = None, tlu_status = None, tlu_priority = None,
      tlu_image_url = None, tlu_created_at = None, tlu_updated_at = None,
      tlu_cleaned_at = None\<rparr>"

text \<open>
  The patch \<open>handleStatusChange\<close> builds. \<open>now\<close> and \<open>now'\<close> are the readings of its two
  \<open>new Date()\<close>, in that order.
\<close>

definition statusUpdates :: "timestamp \<Rightarrow> timestamp \<Rightarrow> string \<Rightarrow> TrashLocationUpdate" where
  "statusUpdates now now' newStatus =
     (let updates = emptyLocationUpdate\<lparr>tlu_status := Some newStatus, tlu_updated_at := Some now\<rparr>
      in if newStatus = ''cleaned'' then updates\<lparr>tlu_cleaned_at := Some (Some now')\<rparr>
         else updates)"

definition handleStatusChange ::
  "fault \<Rightarrow> fault \<Rightarrow> timestamp \<Rightarrow> timestamp \<Rightarrow> string \<Rightarrow> string \<Rightarrow>
   MapView World \<Rightarrow> MapView World completion" where
  "handleStatusChange fUpdate fFetch now now' locationId newStatus =
     tryCatch
       (\<lambda>w. case updateLocations fUpdate (statusUpdates now now' newStatus) locationId
                   (database w) of
               (d', r) \<Rightarrow>
                 awaitOrThrow r (\<lambda>_. seq (fetchLocations fFetch) (setSelectedLocation None))
                   (w\<lparr>database := d'\<rparr>))
       (consoleError ''Error updating status:'')"

text \<open>
  A click on the button with target \<open>newStatus\<close> in the detail panel. The panel exists
  only while a location is selected, and holds only the buttons of \<open>statusButtons\<close>.
\<close>

definition clickStatusButton ::
  "fault \<Rightarrow> fault \<Rightarrow> timestamp \<Rightarrow> timestamp \<Rightarrow> string \<Rightarrow>
   MapView World \<Rightarrow> MapView World completion" where
  "clickStatusButton fUpdate fFetch now now' newStatus w =
     (case mv_selectedLocation (view w) of
        None \<Rightarrow> Normal w
      | Some selectedLocation \<Rightarrow>
          if newStatus \<in> set (statusButtons (tl_status selectedLocation))
          then handleStatusChange fUpdate fFetch now now' (tl_id selectedLocation) newStatus w
          else Normal w)"

section \<open>Logs view\<close>

datatype LevelFilter = AllLevels | OnlyLevel LogLevel

record LogsView =
  lv_logs :: "SystemLog list"
  lv_loading :: bool
  lv_filterLevel :: LevelFilter
  lv_searchQuery :: string

definition initialLogsView :: LogsView where
  "initialLogsView =
     \<lparr>lv_logs = [], lv_loading = True, lv_filterLevel = AllLevels, lv_searchQuery = []\<rparr>"

definition setLogsLoading :: "bool \<Rightarrow> LogsView World \<Rightarrow> LogsView World completion" where
  "setLogsLoading b w = Normal (w\<lparr>view := (view w)\<lparr>lv_loading := b\<rparr>\<rparr>)"

definition setLogs :: "SystemLog list \<Rightarrow> LogsView World \<Rightarrow> LogsView World completion" where
  "setLogs rows w = Normal (w\<lparr>view := (view w)\<lparr>lv_logs := rows\<rparr>\<rparr>)"

definition logsQuery :: "LevelFilter \<Rightarrow> SystemLog Query" where
  "logsQuery filterLevel =
     (let query = limit 100 (orderDesc sl_created_at selectAll)
      in case filterLevel of AllLevels \<Rightarrow> query | OnlyLevel lvl \<Rightarrow> eq sl_log_level lvl query)"

text \<open>The rows the backend answers the logs query with.\<close>

definition fetchedLogs :: "LevelFilter \<Rightarrow> SystemLog list \<Rightarrow> SystemLog list" where
  "fetchedLogs filterLevel tbl = selectRows (logsQuery filterLevel) tbl"

definition fetchLogs :: "fault \<Rightarrow> LogsView World \<Rightarrow> LogsView World completion" where
  "fetchLogs f =
     seq (setLogsLoading True)
       (tryFinally
          (tryCatch
             (\<lambda>w. awaitOrThrow
                     (selectReply f
                        (fetchedLogs (lv_filterLevel (view w)) (system_logs (database w))))
                     (\<lambda>d. setLogs (orEmpty d)) w)
             (consoleError ''Error fetching logs:''))
          (setLogsLoading False))"

text \<open>
  The displayed subset. \<open>log.entity_type?.toLowerCase().includes(...)\<close> is \<open>undefined\<close>,
  hence false, for an entry without an entity type.
\<close>

definition logMatches :: "(string \<Rightarrow> string) \<Rightarrow> string \<Rightarrow> SystemLog \<Rightarrow> bool" where
  "logMatches lc searchQuery entry =
     (includesStr (lc (sl_action entry)) (lc searchQuery) \<or>
      (case sl_entity_type entry of None \<Rightarrow> False
       | Some entity_type \<Rightarrow> includesStr (lc entity_type) (lc searchQuery)))"

definition filteredLogs :: "(string \<Rightarrow> string) \<Rightarrow> LogsView \<Rightarrow> SystemLog list" where
  "filteredLogs lc v = filter (logMatches lc (lv_searchQuery v)) (lv_logs v)"

section \<open>Runs\<close>

text \<open>
  A status change as one value: the faults of its update and of its fetch, the two clock
  readings, the id and the target token. \<open>runStatusChanges\<close> performs a list of them in
  order.
\<close>

record StatusChange =
  sc_updateFault :: fault
  sc_fetchFault :: fault
  sc_now :: timestamp
  sc_now' :: timestamp
  sc_locationId :: string
  sc_newStatus :: string

definition runStatusChange :: "StatusChange \<Rightarrow> MapView World \<Rightarrow> MapView World" where
  "runStatusChange c w =
     worldOf (handleStatusChange (sc_updateFault c) (sc_fetchFault c) (sc_now c) (sc_now' c)
                (sc_locationId c) (sc_newStatus c) w)"

fun runStatusChanges :: "StatusChange list \<Rightarrow> MapView World \<Rightarrow> MapView World" where
  "runStatusChanges [] w = w"
| "runStatusChanges (c # cs) w = runStatusChanges cs (runStatusChange c w)"

text \<open>Rows for concrete runs, after the sample rows of the migration.\<close>

definition exampleUser :: ProjectUser where
  "exampleUser =
     \<lparr>pu_id = ''u1'', pu_email = ''user1@example.com'', pu_full_name = ''Ivan Petrov'',
      pu_phone = Some ''+7 999 123-45-67'', pu_is_active = True, pu_reports_count = 5,
      pu_created_at = 1000, pu_updated_at = 1000\<rparr>"

definition exampleUserNoPhone :: ProjectUser where
  "exampleUserNoPhone =
     \<lparr>pu_id = ''u2'', pu_email = ''user2@example.com'', pu_full_name = ''Maria Sidorova'',
      pu_phone = None, pu_is_active = True, pu_reports_count = 3,
      pu_created_at = 2000, pu_updated_at = 2000\<rparr>"

definition exampleLocation :: TrashLocation where
  "exampleLocation =
     \<lparr>tl_id = ''l1'', tl_user_id = Some ''u1'', tl_latitude = 55.7558, tl_longitude = 37.6173,
      tl_description = ''Roadside construction waste'', tl_trash_type = Mixed,
      tl_status = In_progress, tl_priority = High, tl_image_url = None,
      tl_created_at = 3000, tl_updated_at = 3000, tl_cleaned_at = None\<rparr>"

definition exampleLog :: SystemLog where
  "exampleLog =
     \<lparr>sl_id = ''g1'', sl_log_level = Info, sl_action = ''user_login'',
      sl_user_id = Some ''00000000-0000-0000-0000-000000000001'',
      sl_entity_type = Some ''admin_users'', sl_entity_id = None,
      sl_details = JObject [(''message'', JString ''Signed in'')], sl_ip_address = None,
      sl_created_at = 4000\<rparr>"

definition exampleLogNoEntity :: SystemLog where
  "exampleLogNoEntity =
     \<lparr>sl_id = ''g2'', sl_log_level = Warning, sl_action = ''failed_login_attempt'',
      sl_user_id = None, sl_entity_type = None, sl_entity_id = None,
      sl_details = JObject [], sl_ip_address = None, sl_created_at = 5000\<rparr>"

definition exampleDatabase :: Database where
  "exampleDatabase =
     \<lparr>project_users = [exampleUser, exampleUserNoPhone],
      trash_locations = [exampleLocation],
      system_logs = [exampleLog, exampleLogNoEntity]\<rparr>"

definition exampleUsersWorld :: "UsersView World" where
  "exampleUsersWorld =
     \<lparr>database = exampleDatabase, console = [],
      view = initialUsersView\<lparr>uv_users := [exampleUserNoPhone, exampleUser],
                               uv_loading := False, uv_showAddForm := True,
                               uv_newUserForm := \<lparr>nf_email = ''new@example.com'',
                                                   nf_full_name = ''New User'',
                                                   nf_phone = []\<rparr>\<rparr>\<rparr>"

definition exampleMapWorld :: "MapView World" where
  "exampleMapWorld =
     \<lparr>database = exampleDatabase, console = [],
      view = initialMapView\<lparr>mv_locations := [joinUser [exampleUser] exampleLocation],
                             mv_loading := False,
                             mv_selectedLocation := Some (joinUser [exampleUser] exampleLocation)\<rparr>\<rparr>"

definition exampleLogsWorld :: "LogsView World" where
  "exampleLogsWorld =
     \<lparr>database = exampleDatabase, console = [],
      view = initialLogsView\<lparr>lv_logs := [exampleLogNoEntity, exampleLog],
                              lv_loading := False\<rparr>\<rparr>"

text \<open>Two clicks on the toggle button of \<open>exampleUser\<close>, at the clock readings 6000 and 7000.\<close>

definition toggledOnce :: "UsersView World" where
  "toggledOnce = worldOf (clickToggle NoFault NoFault 6000 exampleUser exampleUsersWorld)"

definition toggledTwice :: "UsersView World" where
  "toggledTwice =
     worldOf (clickToggle NoFault NoFault 7000
                (exampleUser\<lparr>pu_is_active := False, pu_updated_at := 6000\<rparr>) toggledOnce)"

text \<open>
  The same two clicks when the fetch after the first update fails: the list still shows
  \<open>exampleUser\<close> as it was, and the second click is made on that row.
\<close>

definition toggledOnceStale :: "UsersView World" where
  "toggledOnceStale =
     worldOf (clickToggle NoFault (ErrorResult ''offline'') 6000 exampleUser exampleUsersWorld)"

definition toggledTwiceStale :: "UsersView World" where
  "toggledTwiceStale = worldOf (clickToggle NoFault NoFault 7000 exampleUser toggledOnceStale)"

section \<open>Substring search\<close>

text \<open>\<open>includesStr\<close> is the contiguous-sublist relation of the library.\<close>

lemma includesStr_sublist: "includesStr s q = sublist q s"
  by (induction s) (simp_all add: sublist_Cons_right)

lemma includesStr_empty: "includesStr s []"
  by (simp add: includesStr_sublist)

section \<open>Tokens of the closed value sets\<close>

lemma statusOfToken_statusToken: "statusOfToken (statusToken s) = Some s"
  by (cases s; simp add: statusOfToken_def)

lemma trashTypeOfToken_trashTypeToken: "trashTypeOfToken (trashTypeToken t) = Some t"
  by (cases t; simp add: trashTypeOfToken_def)

lemma priorityOfToken_priorityToken: "priorityOfToken (priorityToken p) = Some p"
  by (cases p; simp add: priorityOfToken_def)

lemma statusOfToken_Some: "statusOfToken x = Some s \<Longrightarrow> x = statusToken s"
  by (auto simp add: statusOfToken_def split: if_splits)

lemma statusToken_cleaned: "(statusToken s = ''cleaned'') = (s = Cleaned)"
  by (cases s; simp)

section \<open>Presets, colours and labels\<close>

lemma getMarkerPreset_enum:
  "getMarkerPreset (statusToken s) =
     (case s of Reported \<Rightarrow> ''islands#redIcon'' | In_progress \<Rightarrow> ''islands#blueIcon''
      | Cleaned \<Rightarrow> ''islands#greenIcon'' | Rejected \<Rightarrow> ''islands#grayIcon'')"
  by (cases s; simp add: getMarkerPreset_def)

lemma getStatusLabel_enum:
  "\<exists>l. map_of statusLabels (statusToken s) = Some l \<and> l \<noteq> [] \<and>
       getStatusLabel (statusToken s) = Str l"
  by (cases s; simp add: getStatusLabel_def statusLabels_def getProperty_def)

lemma getTrashTypeLabel_enum:
  "\<exists>l. map_of trashTypeLabels (trashTypeToken t) = Some l \<and> l \<noteq> [] \<and>
       getTrashTypeLabel (trashTypeToken t) = Str l"
  by (cases t; simp add: getTrashTypeLabel_def trashTypeLabels_def getProperty_def)

lemma getPriorityLabel_enum:
  "\<exists>l. map_of priorityLabels (priorityToken p) = Some l \<and> l \<noteq> [] \<and>
       getPriorityLabel (priorityToken p) = Str l"
  by (cases p; simp add: getPriorityLabel_def priorityLabels_def getProperty_def)

lemma getStatusLabel_fallback:
  "statusOfToken x = None \<Longrightarrow> x \<notin> set objectPrototypeKeys \<Longrightarrow> getStatusLabel x = Str x"
  by (simp add: getStatusLabel_def statusLabels_def getProperty_def
      statusOfToken_def split: if_splits)

lemma getTrashTypeLabel_fallback:
  "trashTypeOfToken x = None \<Longrightarrow> x \<notin> set objectPrototypeKeys \<Longrightarrow> getTrashTypeLabel x = Str x"
  by (simp add: getTrashTypeLabel_def trashTypeLabels_def getProperty_def
      trashTypeOfToken_def split: if_splits)

lemma getPriorityLabel_fallback:
  "priorityOfToken x = None \<Longrightarrow> x \<notin> set objectPrototypeKeys \<Longrightarrow> getPriorityLabel x = Str x"
  by (simp add: getPriorityLabel_def priorityLabels_def getProperty_def
      priorityOfToken_def split: if_splits)

lemma status_colours_default:
  "statusOfToken x = None \<Longrightarrow>
     getMarkerPreset x = ''islands#redIcon'' \<and>
     getStatusBadgeColor x = ''bg-gray-100 text-gray-800''"
  by (simp add: getMarkerPreset_def getStatusBadgeColor_def statusOfToken_def split: if_splits)

lemma priority_colour_default:
  "priorityOfToken x = None \<Longrightarrow> getPriorityBadgeColor x = ''bg-gray-100 text-gray-800''"
  by (simp add: getPriorityBadgeColor_def priorityOfToken_def split: if_splits)

text \<open>
  C9, the claim as written, fails: outside the closed set the marker preset is the red
  icon, not the token it was given.
\<close>

theorem getMarkerPreset_not_raw_token:
  "statusOfToken ''archived'' = None \<and> getMarkerPreset ''archived'' \<noteq> ''archived''"
  by (simp add: statusOfToken_def getMarkerPreset_def)

text \<open>
  C9, as amended. The marker preset is red for \<open>reported\<close>, blue for \<open>in_progress\<close>, green
  for \<open>cleaned\<close> and gray for \<open>rejected\<close>, and the marker of a location sits at its
  latitude and longitude with the preset of its status. On a token of the closed set each label function
  returns the entry of its table, which is never empty, so the fallback is not taken.
  On a token outside the closed set that names no property inherited from
  \<open>Object.prototype\<close>, the three label functions return the token itself; the colour
  functions return a fixed default instead (the red icon, the gray badge).
\<close>

theorem label_and_colour_lookups:
  "getMarkerPreset (statusToken Reported) = ''islands#redIcon'' \<and>
   getMarkerPreset (statusToken In_progress) = ''islands#blueIcon'' \<and>
   getMarkerPreset (statusToken Cleaned) = ''islands#greenIcon'' \<and>
   getMarkerPreset (statusToken Rejected) = ''islands#grayIcon'' \<and>
   pm_coordinates (placemarkOf location) = (tl_latitude location, tl_longitude location) \<and>
   pm_preset (placemarkOf location) = getMarkerPreset (statusToken (tl_status location)) \<and>
   (\<exists>l. map_of statusLabels (statusToken s) = Some l \<and> l \<noteq> [] \<and>
        getStatusLabel (statusToken s) = Str l) \<and>
   (\<exists>l. map_of trashTypeLabels (trashTypeToken t) = Some l \<and> l \<noteq> [] \<and>
        getTrashTypeLabel (trashTypeToken t) = Str l) \<and>
   (\<exists>l. map_of priorityLabels (priorityToken p) = Some l \<and> l \<noteq> [] \<and>
        getPriorityLabel (priorityToken p) = Str l) \<and>
   (statusOfToken x = None \<and> x \<notin> set objectPrototypeKeys \<longrightarrow> getStatusLabel x = Str x) \<and>
   (trashTypeOfToken x = None \<and> x \<notin> set objectPrototypeKeys \<longrightarrow> getTrashTypeLabel x = Str x) \<and>
   (priorityOfToken x = None \<and> x \<notin> set objectPrototypeKeys \<longrightarrow> getPriorityLabel x = Str x) \<and>
   (statusOfToken x = None \<longrightarrow>
      getMarkerPreset x = ''islands#redIcon'' \<and>
      getStatusBadgeColor x = ''bg-gray-100 text-gray-800'') \<and>
   (priorityOfToken x = None \<longrightarrow> getPriorityBadgeColor x = ''bg-gray-100 text-gray-800'')"
  using getStatusLabel_enum [of s] getTrashTypeLabel_enum [of t] getPriorityLabel_enum [of p]
    getStatusLabel_fallback [of x] getTrashTypeLabel_fallback [of x]
    getPriorityLabel_fallback [of x] status_colours_default [of x] priority_colour_default [of x]
  by (simp add: getMarkerPreset_def placemarkOf_def)

theorem label_and_colour_lookups_witness:
  "statusOfToken ''archived'' = None \<and> trashTypeOfToken ''archived'' = None \<and>
   priorityOfToken ''archived'' = None \<and> ''archived'' \<notin> set objectPrototypeKeys \<and>
   getStatusLabel ''archived'' = Str ''archived'' \<and>
   getTrashTypeLabel ''archived'' = Str ''archived'' \<and>
   getPriorityLabel ''archived'' = Str ''archived'' \<and>
   getMarkerPreset ''archived'' = ''islands#redIcon'' \<and>
   getStatusBadgeColor ''archived'' = ''bg-gray-100 text-gray-800'' \<and>
   getPriorityBadgeColor ''archived'' = ''bg-gray-100 text-gray-800''"
proof -
  have h: "statusOfToken ''archived'' = None \<and> trashTypeOfToken ''archived'' = None \<and>
           priorityOfToken ''archived'' = None \<and> ''archived'' \<notin> set objectPrototypeKeys"
    by (simp add: statusOfToken_def trashTypeOfToken_def priorityOfToken_def
        objectPrototypeKeys_def)
  from h label_and_colour_lookups [where s = Reported and t = Plastic and p = Low
      and x = "''archived''" and location = "joinUser [] exampleLocation"]
  show ?thesis by blast
qed

section \<open>Displayed subsets\<close>

text \<open>
  C4. A row is in the displayed subset exactly when it is in the held rows and the
  lower-cased query occurs in the lower-cased text of one of the designated fields: for
  users the name, the email or the phone (when there is one), for log entries the action
  or the entity type (when there is one). This holds for every lower-casing function.
\<close>

theorem displayed_iff_matches:
  "(u \<in> set (filteredUsers lc v) \<longleftrightarrow>
      u \<in> set (uv_users v) \<and>
      (sublist (lc (uv_searchQuery v)) (lc (pu_full_name u)) \<or>
       sublist (lc (uv_searchQuery v)) (lc (pu_email u)) \<or>
       (\<exists>phone. pu_phone u = Some phone \<and> sublist (lc (uv_searchQuery v)) (lc phone)))) \<and>
   (e \<in> set (filteredLogs lc lv) \<longleftrightarrow>
      e \<in> set (lv_logs lv) \<and>
      (sublist (lc (lv_searchQuery lv)) (lc (sl_action e)) \<or>
       (\<exists>entity_type. sl_entity_type e = Some entity_type \<and>
          sublist (lc (lv_searchQuery lv)) (lc entity_type))))"
  by (auto simp add: filteredUsers_def userMatches_def filteredLogs_def logMatches_def
      includesStr_sublist split: option.splits)

theorem displayed_iff_matches_witness:
  "exampleUser \<in> set (filteredUsers toLowerCase
      ((view exampleUsersWorld)\<lparr>uv_searchQuery := ''PETR''\<rparr>)) \<and>
   exampleUserNoPhone \<notin> set (filteredUsers toLowerCase
      ((view exampleUsersWorld)\<lparr>uv_searchQuery := ''PETR''\<rparr>)) \<and>
   exampleLog \<in> set (filteredLogs toLowerCase
      ((view exampleLogsWorld)\<lparr>lv_searchQuery := ''Admin''\<rparr>)) \<and>
   exampleLogNoEntity \<notin> set (filteredLogs toLowerCase
      ((view exampleLogsWorld)\<lparr>lv_searchQuery := ''Admin''\<rparr>))"
  using
    displayed_iff_matches [of exampleUser toLowerCase
      "(view exampleUsersWorld)\<lparr>uv_searchQuery := ''PETR''\<rparr>" exampleLog
      "(view exampleLogsWorld)\<lparr>lv_searchQuery := ''Admin''\<rparr>"]
    displayed_iff_matches [of exampleUserNoPhone toLowerCase
      "(view exampleUsersWorld)\<lparr>uv_searchQuery := ''PETR''\<rparr>" exampleLogNoEntity
      "(view exampleLogsWorld)\<lparr>lv_searchQuery := ''Admin''\<rparr>"]
  by (simp add: exampleUsersWorld_def exampleLogsWorld_def initialUsersView_def
      initialLogsView_def exampleUser_def exampleUserNoPhone_def exampleLog_def
      exampleLogNoEntity_def toLowerCase_def lowerChar_def sublist_Cons_right)

text \<open>
  C10. With the empty query the displayed subset is the whole held list, for every
  lower-casing function that keeps the empty string empty (as the runtime's does): the
  name of a user, and the action of a log entry, are never null and contain the empty
  string. A row whose phone or entity type is null is matched on its other fields alone;
  the null field counts as no match.
\<close>

theorem empty_query_shows_all:
  assumes "lc [] = []"
  shows "(uv_searchQuery v = [] \<longrightarrow> filteredUsers lc v = uv_users v) \<and>
         (lv_searchQuery lv = [] \<longrightarrow> filteredLogs lc lv = lv_logs lv) \<and>
         (pu_phone u = None \<longrightarrow>
            userMatches lc q u =
              (includesStr (lc (pu_full_name u)) (lc q) \<or> includesStr (lc (pu_email u)) (lc q))) \<and>
         (sl_entity_type e = None \<longrightarrow>
            logMatches lc q e = includesStr (lc (sl_action e)) (lc q))"
  using assms
  by (simp add: filteredUsers_def userMatches_def filteredLogs_def logMatches_def
      includesStr_empty)

theorem empty_query_shows_all_witness:
  "toLowerCase [] = [] \<and> uv_searchQuery (view exampleUsersWorld) = [] \<and>
   lv_searchQuery (view exampleLogsWorld) = [] \<and>
   pu_phone exampleUserNoPhone = None \<and> sl_entity_type exampleLogNoEntity = None \<and>
   filteredUsers toLowerCase (view exampleUsersWorld) = [exampleUserNoPhone, exampleUser] \<and>
   filteredLogs toLowerCase (view exampleLogsWorld) = [exampleLogNoEntity, exampleLog]"
proof -
  have h: "toLowerCase [] = []"
    by (simp add: toLowerCase_def)
  have q: "uv_searchQuery (view exampleUsersWorld) = [] \<and>
           lv_searchQuery (view exampleLogsWorld) = [] \<and>
           pu_phone exampleUserNoPhone = None \<and> sl_entity_type exampleLogNoEntity = None"
    by (simp add: exampleUsersWorld_def exampleLogsWorld_def initialUsersView_def
        initialLogsView_def exampleUserNoPhone_def exampleLogNoEntity_def)
  have r: "uv_users (view exampleUsersWorld) = [exampleUserNoPhone, exampleUser] \<and>
           lv_logs (view exampleLogsWorld) = [exampleLogNoEntity, exampleLog]"
    by (simp add: exampleUsersWorld_def exampleLogsWorld_def initialUsersView_def
        initialLogsView_def)
  from empty_query_shows_all [of toLowerCase "view exampleUsersWorld" "view exampleLogsWorld"
      exampleUserNoPhone "[]" exampleLogNoEntity, OF h] h q r
  show ?thesis by simp
qed

section \<open>What the handlers do\<close>

lemmas handler_defs = seq_def tryCatch_def tryFinally_def consoleError_def awaitOrThrow_def
  selectReply_def failureReply_def orEmpty_def

subsection \<open>Fetches\<close>

lemma fetchUsers_NoFault:
  "fetchUsers NoFault w =
     Normal (w\<lparr>view := (view w)
       \<lparr>uv_users := selectRows (orderDesc pu_created_at selectAll) (project_users (database w)),
        uv_loading := False\<rparr>\<rparr>)"
  by (simp add: fetchUsers_def handler_defs setUsersLoading_def setUsers_def)

lemma fetchUsers_fault:
  "f \<noteq> NoFault \<Longrightarrow>
   fetchUsers f w =
     Normal (w\<lparr>console := console w @ [(''Error fetching users:'', faultText f)],
               view := (view w)\<lparr>uv_loading := False\<rparr>\<rparr>)"
  by (cases f)
    (simp_all add: fetchUsers_def handler_defs setUsersLoading_def setUsers_def faultText_def)

lemma fetchLocations_NoFault:
  "fetchLocations NoFault w =
     Normal (w\<lparr>view := (view w)
       \<lparr>mv_locations :=
          map (joinUser (project_users (database w)))
            (selectRows (locationsQuery (mv_statusFilter (view w)))
               (trash_locations (database w))),
        mv_loading := False\<rparr>\<rparr>)"
  by (simp add: fetchLocations_def handler_defs setMapLoading_def setLocations_def)

lemma fetchLocations_fault:
  "f \<noteq> NoFault \<Longrightarrow>
   fetchLocations f w =
     Normal (w\<lparr>console := console w @ [(''Error fetching locations:'', faultText f)],
               view := (view w)\<lparr>mv_loading := False\<rparr>\<rparr>)"
  by (cases f)
    (simp_all add: fetchLocations_def handler_defs setMapLoading_def setLocations_def
      faultText_def)

lemma fetchLogs_NoFault:
  "fetchLogs NoFault w =
     Normal (w\<lparr>view := (view w)
       \<lparr>lv_logs := fetchedLogs (lv_filterLevel (view w)) (system_logs (database w)),
        lv_loading := False\<rparr>\<rparr>)"
  by (simp add: fetchLogs_def handler_defs setLogsLoading_def setLogs_def)

lemma fetchLogs_fault:
  "f \<noteq> NoFault \<Longrightarrow>
   fetchLogs f w =
     Normal (w\<lparr>console := console w @ [(''Error fetching logs:'', faultText f)],
               view := (view w)\<lparr>lv_loading := False\<rparr>\<rparr>)"
  by (cases f)
    (simp_all add: fetchLogs_def handler_defs setLogsLoading_def setLogs_def faultText_def)

lemma fetchUsers_database: "database (worldOf (fetchUsers f w)) = database w"
  by (cases "f = NoFault") (simp_all add: fetchUsers_NoFault fetchUsers_fault worldOf_def)

lemma fetchLocations_database: "database (worldOf (fetchLocations f w)) = database w"
  by (cases "f = NoFault")
    (simp_all add: fetchLocations_NoFault fetchLocations_fault worldOf_def)

lemma fetchUsers_Normal: "\<exists>w'. fetchUsers f w = Normal w'"
  by (cases "f = NoFault") (simp_all add: fetchUsers_NoFault fetchUsers_fault)

lemma fetchLocations_Normal: "\<exists>w'. fetchLocations f w = Normal w'"
  by (cases "f = NoFault") (simp_all add: fetchLocations_NoFault fetchLocations_fault)

subsection \<open>Mutations whose backend call fails\<close>

lemma updateUsers_fault: "f \<noteq> NoFault \<Longrightarrow> updateUsers f p uid d = (d, failureReply f)"
  by (simp add: updateUsers_def)

lemma awaitOrThrow_failure:
  "f \<noteq> NoFault \<Longrightarrow> awaitOrThrow (failureReply f) k w = Thrown (faultText f) w"
  by (cases f) (simp_all add: awaitOrThrow_def failureReply_def faultText_def)

lemma handleToggleActive_fault:
  "f \<noteq> NoFault \<Longrightarrow>
   handleToggleActive f fF now uid cur w =
     Normal (w\<lparr>console := console w @ [(''Error toggling user status:'', faultText f)]\<rparr>)"
  by (simp add: handleToggleActive_def updateUsers_fault awaitOrThrow_failure tryCatch_def
      consoleError_def)

lemma handleSaveEdit_fault:
  "f \<noteq> NoFault \<Longrightarrow> uv_editingUser (view w) = Some u \<Longrightarrow>
   handleSaveEdit f fF now w =
     Normal (w\<lparr>console := console w @ [(''Error updating user:'', faultText f)]\<rparr>)"
  by (simp add: handleSaveEdit_def updateUsers_fault awaitOrThrow_failure tryCatch_def
      consoleError_def)

lemma handleAddUser_fault:
  "f \<noteq> NoFault \<Longrightarrow>
   handleAddUser f fF nid t w =
     Normal (w\<lparr>console := console w @ [(''Error adding user:'', faultText f)]\<rparr>)"
  by (simp add: handleAddUser_def insertUser_def awaitOrThrow_failure tryCatch_def
      consoleError_def)

lemma handleStatusChange_fault:
  "f \<noteq> NoFault \<Longrightarrow>
   handleStatusChange f fF now now' lid ns w =
     Normal (w\<lparr>console := console w @ [(''Error updating status:'', faultText f)]\<rparr>)"
  by (simp add: handleStatusChange_def updateLocations_def awaitOrThrow_failure tryCatch_def
      consoleError_def)

lemma tryCatch_consoleError_Normal: "\<exists>w'. tryCatch body (consoleError msg) w = Normal w'"
  by (cases "body w") (simp_all add: tryCatch_def consoleError_def)

lemma handleToggleActive_Normal: "\<exists>w'. handleToggleActive f fF now uid cur w = Normal w'"
  by (simp add: handleToggleActive_def tryCatch_consoleError_Normal)

subsection \<open>The toggle, when its update succeeds\<close>

lemma toggle_patch:
  "applyUserUpdate (emptyUserUpdate\<lparr>puu_is_active := Some b, puu_updated_at := Some now\<rparr>) u =
     u\<lparr>pu_is_active := b, pu_updated_at := now\<rparr>"
  by (simp add: applyUserUpdate_def emptyUserUpdate_def patch_def)

lemma handleToggleActive_NoFault:
  "handleToggleActive NoFault fF now uid cur w =
     fetchUsers fF
       (w\<lparr>database := (database w)
          \<lparr>project_users :=
             map (\<lambda>u. if pu_id u = uid then u\<lparr>pu_is_active := \<not> cur, pu_updated_at := now\<rparr>
                       else u)
               (project_users (database w))\<rparr>\<rparr>)"
proof -
  let ?w = "w\<lparr>database := (database w)
          \<lparr>project_users :=
             map (\<lambda>u. if pu_id u = uid then u\<lparr>pu_is_active := \<not> cur, pu_updated_at := now\<rparr>
                       else u)
               (project_users (database w))\<rparr>\<rparr>"
  obtain w' where "fetchUsers fF ?w = Normal w'"
    using fetchUsers_Normal by blast
  then show ?thesis
    by (simp add: handleToggleActive_def updateUsers_def tryCatch_def awaitOrThrow_def
        toggle_patch cong: if_cong)
qed

subsection \<open>The status change and the table\<close>

lemma statusUpdates_fields:
  "tlu_id (statusUpdates now now' ns) = None"
  "tlu_user_id (statusUpdates now now' ns) = None"
  "tlu_latitude (statusUpdates now now' ns) = None"
  "tlu_longitude (statusUpdates now now' ns) = None"
  "tlu_description (statusUpdates now now' ns) = None"
  "tlu_trash_type (statusUpdates now now' ns) = None"
  "tlu_status (statusUpdates now now' ns) = Some ns"
  "tlu_priority (statusUpdates now now' ns) = None"
  "tlu_image_url (statusUpdates now now' ns) = None"
  "tlu_created_at (statusUpdates now now' ns) = None"
  "tlu_updated_at (statusUpdates now now' ns) = Some now"
  "tlu_cleaned_at (statusUpdates now now' ns) =
     (if ns = ''cleaned'' then Some (Some now') else None)"
  by (simp_all add: statusUpdates_def emptyLocationUpdate_def Let_def)

lemma status_patch:
  "applyLocationUpdate (statusUpdates now now' ns) l =
     map_option
       (\<lambda>st. l\<lparr>tl_status := st, tl_updated_at := now,
                tl_cleaned_at := (if ns = ''cleaned'' then Some now' else tl_cleaned_at l)\<rparr>)
       (statusOfToken ns)"
  by (cases "statusOfToken ns")
    (simp_all add: applyLocationUpdate_def statusUpdates_fields patch_def)

lemma handleStatusChange_database:
  "database (worldOf (handleStatusChange fU fF now now' lid ns w)) =
     fst (updateLocations fU (statusUpdates now now' ns) lid (database w))"
proof -
  obtain d' r where u: "updateLocations fU (statusUpdates now now' ns) lid (database w) = (d', r)"
    by fastforce
  show ?thesis
  proof (cases "r = Reply None None")
    case True
    obtain w' where w': "fetchLocations fF (w\<lparr>database := d'\<rparr>) = Normal w'"
      using fetchLocations_Normal by blast
    then have "database w' = d'"
      using fetchLocations_database [of fF "w\<lparr>database := d'\<rparr>"] by (simp add: worldOf_def)
    with True w' u show ?thesis
      by (simp add: handleStatusChange_def tryCatch_def awaitOrThrow_def seq_def
          setSelectedLocation_def worldOf_def)
  next
    case False
    with u have "d' = database w \<and> (\<exists>e. r = Reply None (Some e) \<or> r = RejectedWith e)"
      by (cases fU) (auto simp add: updateLocations_def failureReply_def split: if_splits)
    with u show ?thesis
      by (auto simp add: handleStatusChange_def tryCatch_def awaitOrThrow_def
          consoleError_def worldOf_def)
  qed
qed

lemma updateLocations_tables:
  "project_users (fst (updateLocations f p lid d)) = project_users d \<and>
   system_logs (fst (updateLocations f p lid d)) = system_logs d"
  by (simp add: updateLocations_def)

lemma updateLocations_rows:
  "trash_locations (fst (updateLocations f (statusUpdates now now' ns) lid d)) =
     trash_locations d \<or>
   (\<exists>st. f = NoFault \<and> statusOfToken ns = Some st \<and>
      trash_locations (fst (updateLocations f (statusUpdates now now' ns) lid d)) =
        map (\<lambda>l. if tl_id l = lid
                  then l\<lparr>tl_status := st, tl_updated_at := now,
                         tl_cleaned_at :=
                           (if ns = ''cleaned'' then Some now' else tl_cleaned_at l)\<rparr>
                  else l)
          (trash_locations d))"
proof (cases "statusOfToken ns")
  case None
  then show ?thesis
    by (auto simp add: updateLocations_def status_patch list_ex_iff intro!: map_idI)
next
  case (Some st)
  then show ?thesis
    by (simp add: updateLocations_def status_patch list_ex_iff)
qed

lemma updateLocations_NoFault:
  "updateLocations NoFault (statusUpdates now now' (statusToken t)) lid d =
     (d\<lparr>trash_locations :=
          map (\<lambda>l. if tl_id l = lid
                    then l\<lparr>tl_status := t, tl_updated_at := now,
                           tl_cleaned_at := (if t = Cleaned then Some now' else tl_cleaned_at l)\<rparr>
                    else l)
            (trash_locations d)\<rparr>,
      Reply None None)"
  by (simp add: updateLocations_def status_patch list_ex_iff statusOfToken_statusToken
      statusToken_cleaned)

lemma example_tables:
  "trash_locations (database exampleMapWorld) = [exampleLocation]"
  "project_users (database exampleUsersWorld) = [exampleUser, exampleUserNoPhone]"
  "system_logs (database exampleLogsWorld) = [exampleLog, exampleLogNoEntity]"
  by (simp_all add: exampleMapWorld_def exampleUsersWorld_def exampleLogsWorld_def
      exampleDatabase_def)

section \<open>Status transitions\<close>

lemma status_rows_cases:
  fixes w fU fF now now' locationId newStatus
  defines "old \<equiv> trash_locations (database w)"
  defines "new \<equiv> trash_locations (database (worldOf
                    (handleStatusChange fU fF now now' locationId newStatus w)))"
  shows "new = old \<or>
         (\<exists>st. fU = NoFault \<and> statusOfToken newStatus = Some st \<and>
            new =
              map (\<lambda>l. if tl_id l = locationId
                        then l\<lparr>tl_status := st, tl_updated_at := now,
                               tl_cleaned_at :=
                                 (if newStatus = ''cleaned'' then Some now'
                                  else tl_cleaned_at l)\<rparr>
                        else l)
                old)"
  unfolding old_def new_def handleStatusChange_database
  by (rule updateLocations_rows)

lemma status_change_effect:
  "list_all2
     (\<lambda>l l'. if tl_id l = locationId
              then l' = l\<lparr>tl_status := t, tl_updated_at := now,
                            tl_cleaned_at := (if t = Cleaned then Some now' else tl_cleaned_at l)\<rparr>
              else l' = l)
     (trash_locations (database w))
     (trash_locations (database (worldOf
        (handleStatusChange NoFault fF now now' locationId (statusToken t) w))))"
  by (simp add: handleStatusChange_database updateLocations_NoFault list_all2_map2
      list_all2_same)

lemma status_change_sets:
  assumes "statusOfToken newStatus = Some st"
  shows "list_all2
           (\<lambda>l l'. tl_id l = locationId \<longrightarrow> tl_status l' = st \<and> tl_updated_at l' = now)
           (trash_locations (database w))
           (trash_locations (database (worldOf
              (handleStatusChange NoFault fF now now' locationId newStatus w))))"
proof -
  from assms have "newStatus = statusToken st"
    by (rule statusOfToken_Some)
  then show ?thesis
    using status_change_effect [where locationId = locationId and t = st and now = now
        and now' = now' and w = w and fF = fF]
    by (auto simp add: list_all2_conv_all_nth)
qed

lemma cleaned_at_kept_step:
  "list_all2 (\<lambda>l l'. tl_cleaned_at l \<noteq> None \<longrightarrow> tl_cleaned_at l' \<noteq> None)
     (trash_locations (database w)) (trash_locations (database (runStatusChange c w)))"
  using status_rows_cases [of "sc_updateFault c" "sc_fetchFault c" "sc_now c" "sc_now' c"
      "sc_locationId c" "sc_newStatus c" w]
  by (auto simp add: runStatusChange_def list_all2_map2 list_all2_same)

lemma cleaned_at_kept_run:
  "list_all2 (\<lambda>l l'. tl_cleaned_at l \<noteq> None \<longrightarrow> tl_cleaned_at l' \<noteq> None)
     (trash_locations (database w)) (trash_locations (database (runStatusChanges cs w)))"
proof (induction cs arbitrary: w)
  case Nil
  show ?case by (simp add: list_all2_same)
next
  case (Cons c cs)
  from cleaned_at_kept_step [of w c] Cons.IH [of "runStatusChange c w"]
  show ?case
    by (auto simp add: list_all2_conv_all_nth)
qed

text \<open>
  C2. Whatever the faults, the target token and the clock readings, a call of
  \<open>handleStatusChange\<close> leaves the table of locations row for row with the same id, user,
  latitude, longitude, description, trash type, priority, image and creation time; the
  cleaning time is kept unless the target is \<open>cleaned\<close>; a row with another id is not
  touched at all, and neither are the other two tables. When the update succeeds, the
  rows with the given id have the target status and the first clock reading as their
  update time.
\<close>

theorem status_change_frame:
  "list_all2
     (\<lambda>l l'. tl_id l' = tl_id l \<and> tl_user_id l' = tl_user_id l \<and>
              tl_latitude l' = tl_latitude l \<and> tl_longitude l' = tl_longitude l \<and>
              tl_description l' = tl_description l \<and> tl_trash_type l' = tl_trash_type l \<and>
              tl_priority l' = tl_priority l \<and> tl_image_url l' = tl_image_url l \<and>
              tl_created_at l' = tl_created_at l \<and>
              (newStatus \<noteq> ''cleaned'' \<longrightarrow> tl_cleaned_at l' = tl_cleaned_at l) \<and>
              (tl_id l \<noteq> locationId \<longrightarrow> l' = l))
     (trash_locations (database w))
     (trash_locations (database (worldOf
        (handleStatusChange fU fF now now' locationId newStatus w)))) \<and>
   project_users (database (worldOf (handleStatusChange fU fF now now' locationId newStatus w)))
     = project_users (database w) \<and>
   system_logs (database (worldOf (handleStatusChange fU fF now now' locationId newStatus w)))
     = system_logs (database w) \<and>
   (fU = NoFault \<and> statusOfToken newStatus = Some st \<longrightarrow>
      list_all2 (\<lambda>l l'. tl_id l = locationId \<longrightarrow> tl_status l' = st \<and> tl_updated_at l' = now)
        (trash_locations (database w))
        (trash_locations (database (worldOf
           (handleStatusChange fU fF now now' locationId newStatus w)))))"
proof -
  have tables:
    "project_users (database (worldOf (handleStatusChange fU fF now now' locationId newStatus w)))
     = project_users (database w) \<and>
   system_logs (database (worldOf (handleStatusChange fU fF now now' locationId newStatus w)))
     = system_logs (database w)"
    by (simp add: handleStatusChange_database updateLocations_tables)
  have rows: "list_all2
     (\<lambda>l l'. tl_id l' = tl_id l \<and> tl_user_id l' = tl_user_id l \<and>
              tl_latitude l' = tl_latitude l \<and> tl_longitude l' = tl_longitude l \<and>
              tl_description l' = tl_description l \<and> tl_trash_type l' = tl_trash_type l \<and>
              tl_priority l' = tl_priority l \<and> tl_image_url l' = tl_image_url l \<and>
              tl_created_at l' = tl_created_at l \<and>
              (newStatus \<noteq> ''cleaned'' \<longrightarrow> tl_cleaned_at l' = tl_cleaned_at l) \<and>
              (tl_id l \<noteq> locationId \<longrightarrow> l' = l))
     (trash_locations (database w))
     (trash_locations (database (worldOf
        (handleStatusChange fU fF now now' locationId newStatus w))))"
    using status_rows_cases [of fU fF now now' locationId newStatus w]
    by (auto simp add: list_all2_map2 list_all2_same)
  from rows tables status_change_sets [of newStatus st locationId now w fF now']
  show ?thesis by blast
qed

theorem status_change_frame_witness:
  "''rejected'' \<noteq> ''cleaned'' \<and> tl_id exampleLocation = ''l1'' \<and>
   statusOfToken ''rejected'' = Some Rejected \<and>
   list_all2 (\<lambda>l l'. tl_id l' = tl_id l \<and> tl_description l' = tl_description l \<and>
                tl_created_at l' = tl_created_at l \<and> tl_cleaned_at l' = tl_cleaned_at l \<and>
                tl_status l' = Rejected \<and> tl_updated_at l' = 6000)
     [exampleLocation]
     (trash_locations (database (worldOf
        (handleStatusChange NoFault NoFault 6000 6001 ''l1'' ''rejected'' exampleMapWorld))))"
  using status_change_frame [where newStatus = "''rejected''" and locationId = "''l1''"
      and w = exampleMapWorld and fU = NoFault and fF = NoFault and now = 6000 and now' = 6001
      and st = Rejected]
  by (auto simp add: example_tables exampleLocation_def list_all2_Cons1 statusOfToken_def)

text \<open>
  C3. A successful transition of the rows with the given id to the status \<open>t\<close> sets their
  cleaning time to the second clock reading when \<open>t\<close> is \<open>cleaned\<close> and keeps it as it was
  otherwise. Over any sequence of status changes, failed ones included, a row whose
  cleaning time is set keeps it set. A row inserted without a cleaning time has none.
\<close>

theorem cleaned_at_stamping:
  "list_all2
     (\<lambda>l l'. tl_id l = locationId \<longrightarrow>
        tl_status l' = t \<and>
        tl_cleaned_at l' = (if t = Cleaned then Some now' else tl_cleaned_at l))
     (trash_locations (database w))
     (trash_locations (database (worldOf
        (handleStatusChange NoFault fF now now' locationId (statusToken t) w)))) \<and>
   list_all2 (\<lambda>l l'. tl_cleaned_at l \<noteq> None \<longrightarrow> tl_cleaned_at l' \<noteq> None)
     (trash_locations (database w)) (trash_locations (database (runStatusChanges cs w))) \<and>
   (tli_cleaned_at i = None \<longrightarrow> tl_cleaned_at (insertedLocation newId serverNow i) = None)"
proof -
  have a: "list_all2
     (\<lambda>l l'. tl_id l = locationId \<longrightarrow>
        tl_status l' = t \<and>
        tl_cleaned_at l' = (if t = Cleaned then Some now' else tl_cleaned_at l))
     (trash_locations (database w))
     (trash_locations (database (worldOf
        (handleStatusChange NoFault fF now now' locationId (statusToken t) w))))"
    using status_change_effect [where locationId = locationId and t = t and now = now
        and now' = now' and w = w and fF = fF]
    by (auto simp add: list_all2_conv_all_nth)
  have c: "tli_cleaned_at i = None \<longrightarrow> tl_cleaned_at (insertedLocation newId serverNow i) = None"
    by (simp add: insertedLocation_def)
  from a cleaned_at_kept_run [of w cs] c show ?thesis by blast
qed

theorem cleaned_at_stamping_witness:
  "tl_id exampleLocation = ''l1'' \<and> tl_cleaned_at exampleLocation = None \<and>
   list_all2 (\<lambda>l l'. tl_status l' = Cleaned \<and> tl_cleaned_at l' = Some 6001)
     [exampleLocation]
     (trash_locations (database (worldOf
        (handleStatusChange NoFault NoFault 6000 6001 ''l1'' (statusToken Cleaned)
           exampleMapWorld)))) \<and>
   tl_cleaned_at (exampleLocation\<lparr>tl_status := Cleaned, tl_cleaned_at := Some 6001\<rparr>) \<noteq> None \<and>
   list_all2 (\<lambda>l l'. tl_cleaned_at l' \<noteq> None)
     [exampleLocation\<lparr>tl_status := Cleaned, tl_cleaned_at := Some 6001\<rparr>]
     (trash_locations (database (runStatusChanges
        [\<lparr>sc_updateFault = NoFault, sc_fetchFault = NoFault, sc_now = 7000, sc_now' = 7001,
          sc_locationId = ''l1'', sc_newStatus = ''rejected''\<rparr>]
        (exampleMapWorld\<lparr>database := exampleDatabase\<lparr>trash_locations :=
           [exampleLocation\<lparr>tl_status := Cleaned, tl_cleaned_at := Some 6001\<rparr>]\<rparr>\<rparr>)))) \<and>
   tl_cleaned_at (insertedLocation ''l2'' 8000
     \<lparr>tli_id = None, tli_user_id = None, tli_latitude = 55.75, tli_longitude = 37.61,
      tli_description = ''Dump in the woods'', tli_trash_type = Other, tli_status = None,
      tli_priority = None, tli_image_url = None, tli_created_at = None,
      tli_updated_at = None, tli_cleaned_at = None\<rparr>) = None"
  using
    cleaned_at_stamping [where locationId = "''l1''" and t = Cleaned and now' = 6001
      and w = exampleMapWorld and fF = NoFault and now = 6000 and cs = "[]" and newId = "''l2''"
      and serverNow = 8000 and i =
      "\<lparr>tli_id = None, tli_user_id = None, tli_latitude = 55.75, tli_longitude = 37.61,
        tli_description = ''Dump in the woods'', tli_trash_type = Other, tli_status = None,
        tli_priority = None, tli_image_url = None, tli_created_at = None,
        tli_updated_at = None, tli_cleaned_at = None\<rparr>"]
    cleaned_at_stamping [where locationId = "''l1''" and t = Rejected and now' = 7001 and w =
      "exampleMapWorld\<lparr>database := exampleDatabase\<lparr>trash_locations :=
           [exampleLocation\<lparr>tl_status := Cleaned, tl_cleaned_at := Some 6001\<rparr>]\<rparr>\<rparr>"
      and fF = NoFault and now = 7000 and cs =
      "[\<lparr>sc_updateFault = NoFault, sc_fetchFault = NoFault, sc_now = 7000, sc_now' = 7001,
          sc_locationId = ''l1'', sc_newStatus = ''rejected''\<rparr>]"]
  by (auto simp add: example_tables exampleLocation_def list_all2_Cons1)

section \<open>Backend failures\<close>

lemma fetchLogs_Normal:
  "\<exists>w'. fetchLogs f lw = Normal w'"
  by (cases "f = NoFault") (simp_all add: fetchLogs_NoFault fetchLogs_fault)

lemma handlers_Normal:
  "\<exists>w'. handleSaveEdit fU fF now w = Normal w'"
  "\<exists>w'. handleAddUser fU fF newId serverNow w = Normal w'"
  "\<exists>mw'. handleStatusChange fU fF now now' locationId newStatus mw = Normal mw'"
  by (simp_all add: handleSaveEdit_def handleAddUser_def handleStatusChange_def
      tryCatch_consoleError_Normal split: option.splits)

lemma handleStatusChange_refused:
  assumes "statusOfToken newStatus = None"
    and "locationId \<in> tl_id ` set (trash_locations (database mw))"
  shows "handleStatusChange NoFault fF now now' locationId newStatus mw =
           Normal (mw\<lparr>console := console mw @
             [(''Error updating status:'', ''new row violates check constraint'')]\<rparr>)"
proof -
  from assms have "list_ex (\<lambda>l. tl_id l = locationId \<and>
      applyLocationUpdate (statusUpdates now now' newStatus) l = None)
      (trash_locations (database mw))"
    by (auto simp add: list_ex_iff status_patch)
  then show ?thesis
    by (simp add: handleStatusChange_def updateLocations_def tryCatch_def awaitOrThrow_def
        consoleError_def)
qed

text \<open>
  C6. No handler ends by a thrown error, whatever the faults of its backend calls. When
  the call a handler starts with fails, the handler writes the error to the console and
  changes nothing else than the loading flag a fetch resets: a fetch keeps the rows the
  view held, and a mutation keeps the whole view, so the edit form or the add form stays
  open with what the user typed, and the selected location stays selected. The same holds
  when the backend refuses a status token by its CHECK constraint.
\<close>

theorem backend_failures_swallowed:
  "(\<exists>w'. fetchUsers f w = Normal w') \<and>
   (\<exists>mw'. fetchLocations f mw = Normal mw') \<and>
   (\<exists>lw'. fetchLogs f lw = Normal lw') \<and>
   (\<exists>w'. handleToggleActive f fF now userId currentStatus w = Normal w') \<and>
   (\<exists>w'. handleSaveEdit f fF now w = Normal w') \<and>
   (\<exists>w'. handleAddUser f fF newId serverNow w = Normal w') \<and>
   (\<exists>mw'. handleStatusChange f fF now now' locationId newStatus mw = Normal mw') \<and>
   (f \<noteq> NoFault \<longrightarrow>
      fetchUsers f w =
        Normal (w\<lparr>console := console w @ [(''Error fetching users:'', faultText f)],
                  view := (view w)\<lparr>uv_loading := False\<rparr>\<rparr>) \<and>
      fetchLocations f mw =
        Normal (mw\<lparr>console := console mw @ [(''Error fetching locations:'', faultText f)],
                   view := (view mw)\<lparr>mv_loading := False\<rparr>\<rparr>) \<and>
      fetchLogs f lw =
        Normal (lw\<lparr>console := console lw @ [(''Error fetching logs:'', faultText f)],
                   view := (view lw)\<lparr>lv_loading := False\<rparr>\<rparr>) \<and>
      handleToggleActive f fF now userId currentStatus w =
        Normal (w\<lparr>console := console w @ [(''Error toggling user status:'', faultText f)]\<rparr>) \<and>
      (uv_editingUser (view w) \<noteq> None \<longrightarrow>
         handleSaveEdit f fF now w =
           Normal (w\<lparr>console := console w @ [(''Error updating user:'', faultText f)]\<rparr>)) \<and>
      handleAddUser f fF newId serverNow w =
        Normal (w\<lparr>console := console w @ [(''Error adding user:'', faultText f)]\<rparr>) \<and>
      handleStatusChange f fF now now' locationId newStatus mw =
        Normal (mw\<lparr>console := console mw @ [(''Error updating status:'', faultText f)]\<rparr>)) \<and>
   (statusOfToken newStatus = None \<and>
    locationId \<in> tl_id ` set (trash_locations (database mw)) \<longrightarrow>
      handleStatusChange NoFault fF now now' locationId newStatus mw =
        Normal (mw\<lparr>console := console mw @
          [(''Error updating status:'', ''new row violates check constraint'')]\<rparr>))"
  using fetchUsers_Normal [of f w] fetchLocations_Normal [of f mw] fetchLogs_Normal [of f lw]
    handleToggleActive_Normal [of f fF now userId currentStatus w]
    handlers_Normal(1) [of f fF now w] handlers_Normal(2) [of f fF newId serverNow w]
    handlers_Normal(3) [of f fF now now' locationId newStatus mw]
    handleStatusChange_refused [of newStatus locationId mw fF now now']
  by (auto simp add: fetchUsers_fault fetchLocations_fault fetchLogs_fault
      handleToggleActive_fault handleSaveEdit_fault handleAddUser_fault handleStatusChange_fault)

theorem backend_failures_swallowed_witness:
  "ErrorResult ''permission denied'' \<noteq> NoFault \<and>
   uv_showAddForm (view exampleUsersWorld) \<and>
   handleAddUser (ErrorResult ''permission denied'') NoFault ''u3'' 9000 exampleUsersWorld =
     Normal (exampleUsersWorld\<lparr>console := [(''Error adding user:'', ''permission denied'')]\<rparr>) \<and>
   uv_users (view (worldOf (fetchUsers (ErrorResult ''permission denied'') exampleUsersWorld)))
     = [exampleUserNoPhone, exampleUser] \<and>
   console (worldOf (fetchUsers (ErrorResult ''permission denied'') exampleUsersWorld))
     = [(''Error fetching users:'', ''permission denied'')]"
  using backend_failures_swallowed [where f = "ErrorResult ''permission denied''"
      and w = exampleUsersWorld and fF = NoFault and newId = "''u3''" and serverNow = 9000]
  by (simp add: faultText_def worldOf_def exampleUsersWorld_def initialUsersView_def)

text \<open>
  C7, the claim as written, fails: a fetch that fails while the view holds rows leaves
  those rows displayed.
\<close>

theorem failed_fetch_not_empty:
  "uv_users (view (worldOf (fetchUsers (ErrorResult ''offline'') exampleUsersWorld)))
     = [exampleUserNoPhone, exampleUser] \<and>
   uv_users (view (worldOf (fetchUsers (ErrorResult ''offline'') exampleUsersWorld))) \<noteq> []"
  by (simp add: fetchUsers_fault worldOf_def exampleUsersWorld_def initialUsersView_def)

text \<open>
  C7, as amended. After a failed fetch the view holds the rows it held before and is no
  longer loading. The list is empty only when it was empty already, as it is in the
  state the view mounts with.
\<close>

theorem failed_fetch_keeps_rows:
  assumes "f \<noteq> NoFault"
  shows "uv_users (view (worldOf (fetchUsers f w))) = uv_users (view w) \<and>
         \<not> uv_loading (view (worldOf (fetchUsers f w))) \<and>
         mv_locations (view (worldOf (fetchLocations f mw))) = mv_locations (view mw) \<and>
         \<not> mv_loading (view (worldOf (fetchLocations f mw))) \<and>
         lv_logs (view (worldOf (fetchLogs f lw))) = lv_logs (view lw) \<and>
         \<not> lv_loading (view (worldOf (fetchLogs f lw))) \<and>
         (view w = initialUsersView \<longrightarrow> uv_users (view (worldOf (fetchUsers f w))) = []) \<and>
         (view mw = initialMapView \<longrightarrow> mv_locations (view (worldOf (fetchLocations f mw))) = []) \<and>
         (view lw = initialLogsView \<longrightarrow> lv_logs (view (worldOf (fetchLogs f lw))) = [])"
  using assms
  by (simp add: fetchUsers_fault fetchLocations_fault fetchLogs_fault worldOf_def
      initialUsersView_def initialMapView_def initialLogsView_def)

theorem failed_fetch_keeps_rows_witness:
  "Rejects ''timeout'' \<noteq> NoFault \<and>
   mv_locations (view (worldOf (fetchLocations (Rejects ''timeout'') exampleMapWorld)))
     = [joinUser [exampleUser] exampleLocation] \<and>
   \<not> mv_loading (view (worldOf (fetchLocations (Rejects ''timeout'') exampleMapWorld))) \<and>
   uv_users (view (worldOf (fetchUsers (Rejects ''timeout'')
      \<lparr>database = exampleDatabase, console = [], view = initialUsersView\<rparr>))) = []"
proof -
  have h: "Rejects ''timeout'' \<noteq> NoFault"
    by simp
  from failed_fetch_keeps_rows [where f = "Rejects ''timeout''" and mw = exampleMapWorld
      and lw = exampleLogsWorld
      and w = "\<lparr>database = exampleDatabase, console = [], view = initialUsersView\<rparr>", OF h]
  show ?thesis
    by (simp add: exampleMapWorld_def initialMapView_def initialUsersView_def)
qed

section \<open>The logs query\<close>

lemma set_selectRows:
  "set (selectRows q tbl) \<subseteq> set (filter (\<lambda>r. list_all (\<lambda>p. p r) (q_eq q)) tbl)"
proof -
  let ?m = "filter (\<lambda>r. list_all (\<lambda>p. p r) (q_eq q)) tbl"
  let ?ordered = "case q_orderDesc q of None \<Rightarrow> ?m | Some col \<Rightarrow> rev (sort_key col ?m)"
  have ordered: "set ?ordered = set ?m"
    by (cases "q_orderDesc q") simp_all
  have "set (selectRows q tbl) \<subseteq> set ?ordered"
    by (cases "q_limit q") (simp_all add: selectRows_def Let_def set_take_subset)
  with ordered show ?thesis by simp
qed

lemma length_selectRows: "q_limit q = Some n \<Longrightarrow> length (selectRows q tbl) \<le> n"
  by (simp add: selectRows_def Let_def)

lemma logsQuery_limit: "q_limit (logsQuery fl) = Some 100"
  by (cases fl) (simp_all add: logsQuery_def limit_def orderDesc_def selectAll_def eq_def)

lemma logsQuery_eq: "q_eq (logsQuery (OnlyLevel lvl)) = [\<lambda>r. sl_log_level r = lvl]"
  by (simp add: logsQuery_def limit_def orderDesc_def selectAll_def eq_def)

lemma length_fetchedLogs: "length (fetchedLogs fl tbl) \<le> 100"
  by (simp add: fetchedLogs_def length_selectRows logsQuery_limit)

lemma fetchedLogs_level:
  "e \<in> set (fetchedLogs (OnlyLevel lvl) tbl) \<Longrightarrow> e \<in> set tbl \<and> sl_log_level e = lvl"
  using set_selectRows [of "logsQuery (OnlyLevel lvl)" tbl]
  by (auto simp add: fetchedLogs_def logsQuery_eq)

lemma fetchedLogs_none:
  "\<forall>e \<in> set tbl. sl_log_level e \<noteq> lvl \<Longrightarrow> fetchedLogs (OnlyLevel lvl) tbl = []"
  using fetchedLogs_level [of _ lvl tbl] by (cases "fetchedLogs (OnlyLevel lvl) tbl") auto

text \<open>
  C5. Whatever the table holds, the rows answering the logs query are at most 100, and
  under a level filter each of them has that level; with no critical row in the table
  the answer to the \<open>critical\<close> filter is the empty list. A fetch without a fault puts
  exactly these rows into the view and completes normally, and no fetch, failed or not,
  takes the view above 100 rows.
\<close>

theorem logs_fetch_bounded:
  "length (fetchedLogs filterLevel tbl) \<le> 100 \<and>
   (\<forall>e \<in> set (fetchedLogs (OnlyLevel lvl) tbl). sl_log_level e = lvl) \<and>
   ((\<forall>e \<in> set tbl. sl_log_level e \<noteq> Critical) \<longrightarrow> fetchedLogs (OnlyLevel Critical) tbl = []) \<and>
   fetchLogs NoFault w =
     Normal (w\<lparr>view := (view w)\<lparr>lv_logs := fetchedLogs (lv_filterLevel (view w))
                                               (system_logs (database w)),
                                  lv_loading := False\<rparr>\<rparr>) \<and>
   (length (lv_logs (view w)) \<le> 100 \<longrightarrow>
      length (lv_logs (view (worldOf (fetchLogs f w)))) \<le> 100)"
proof -
  have inv: "length (lv_logs (view w)) \<le> 100 \<longrightarrow>
      length (lv_logs (view (worldOf (fetchLogs f w)))) \<le> 100"
    by (cases "f = NoFault")
      (simp_all add: fetchLogs_NoFault fetchLogs_fault worldOf_def length_fetchedLogs)
  from inv length_fetchedLogs [of filterLevel tbl] fetchedLogs_level [of _ lvl tbl]
    fetchedLogs_none [of tbl Critical] fetchLogs_NoFault [of w]
  show ?thesis by blast
qed

theorem logs_fetch_bounded_witness:
  "map sl_log_level (system_logs (database exampleLogsWorld)) = [Info, Warning] \<and>
   length (lv_logs (view exampleLogsWorld)) \<le> 100 \<and>
   fetchLogs NoFault
     (exampleLogsWorld\<lparr>view := (view exampleLogsWorld)\<lparr>lv_filterLevel := OnlyLevel Critical\<rparr>\<rparr>)
     = Normal (exampleLogsWorld\<lparr>view := (view exampleLogsWorld)
                 \<lparr>lv_filterLevel := OnlyLevel Critical, lv_logs := []\<rparr>\<rparr>) \<and>
   length (lv_logs (view (worldOf (fetchLogs (ErrorResult ''offline'') exampleLogsWorld)))) \<le> 100"
proof -
  have h: "\<forall>e \<in> set (system_logs (database exampleLogsWorld)). sl_log_level e \<noteq> Critical"
    by (simp add: example_tables exampleLog_def exampleLogNoEntity_def)
  have l: "length (lv_logs (view exampleLogsWorld)) \<le> 100"
    by (simp add: exampleLogsWorld_def initialLogsView_def)
  have m: "map sl_log_level (system_logs (database exampleLogsWorld)) = [Info, Warning]"
    by (simp add: example_tables exampleLog_def exampleLogNoEntity_def)
  from h l m
    logs_fetch_bounded [where tbl = "system_logs (database exampleLogsWorld)"
      and w = "exampleLogsWorld\<lparr>view := (view exampleLogsWorld)
                 \<lparr>lv_filterLevel := OnlyLevel Critical\<rparr>\<rparr>"]
    logs_fetch_bounded [where w = exampleLogsWorld and f = "ErrorResult ''offline''"]
  show ?thesis
    by (simp add: exampleLogsWorld_def initialLogsView_def)
qed

section \<open>Toggling a user\<close>

lemma handleToggleActive_table:
  "project_users (database (worldOf (handleToggleActive NoFault fF now userId currentStatus w))) =
     map (\<lambda>u. if pu_id u = userId
               then u\<lparr>pu_is_active := \<not> currentStatus, pu_updated_at := now\<rparr> else u)
       (project_users (database w))"
  by (simp add: handleToggleActive_NoFault fetchUsers_database)

lemma set_selectRows_users:
  "set (selectRows (orderDesc pu_created_at selectAll) tbl) = set tbl"
  by (simp add: selectRows_def orderDesc_def selectAll_def)

lemma handleToggleActive_view:
  "uv_users (view (worldOf (handleToggleActive NoFault NoFault now userId currentStatus w))) =
     selectRows (orderDesc pu_created_at selectAll)
       (project_users (database (worldOf
          (handleToggleActive NoFault NoFault now userId currentStatus w))))"
  by (simp add: handleToggleActive_NoFault fetchUsers_NoFault worldOf_def)

lemma clickToggle_Normal:
  "clickToggle fU fF now user w = Normal (worldOf (clickToggle fU fF now user w))"
  using handleToggleActive_Normal [of fU fF now "pu_id user" "pu_is_active user" w]
  by (auto simp add: clickToggle_def worldOf_def)

lemma handleToggleActive_stale_view:
  "fF \<noteq> NoFault \<Longrightarrow>
   uv_users (view (worldOf (handleToggleActive NoFault fF now userId currentStatus w))) =
     uv_users (view w)"
  by (simp add: handleToggleActive_NoFault fetchUsers_fault worldOf_def)

lemma clickToggle_table:
  "project_users (database (worldOf (clickToggle NoFault fF now u w))) =
     map (\<lambda>r. if pu_id r = pu_id u
               then r\<lparr>pu_is_active := \<not> pu_is_active u, pu_updated_at := now\<rparr> else r)
       (project_users (database w))"
  by (simp add: clickToggle_def handleToggleActive_table)

lemma two_toggles_rows:
  assumes first: "clickToggle NoFault NoFault t1 u w = Normal w1"
    and shown: "u1 \<in> set (uv_users (view w1))" "pu_id u1 = pu_id u"
    and second: "clickToggle NoFault fF t2 u1 w1 = Normal w2"
  shows "length (project_users (database w1)) = length (project_users (database w)) \<and>
         length (project_users (database w2)) = length (project_users (database w)) \<and>
         (\<forall>i < length (project_users (database w)).
            pu_id (project_users (database w) ! i) = pu_id u \<longrightarrow>
              project_users (database w1) ! i =
                (project_users (database w) ! i)
                  \<lparr>pu_is_active := \<not> pu_is_active u, pu_updated_at := t1\<rparr> \<and>
              project_users (database w2) ! i =
                (project_users (database w) ! i)
                  \<lparr>pu_is_active := pu_is_active u, pu_updated_at := t2\<rparr> \<and>
              (pu_is_active (project_users (database w) ! i) = pu_is_active u \<longrightarrow>
                 pu_is_active (project_users (database w2) ! i) =
                   pu_is_active (project_users (database w) ! i)) \<and>
              (pu_updated_at (project_users (database w) ! i) < t1 \<and> t1 < t2 \<longrightarrow>
                 pu_updated_at (project_users (database w) ! i) <
                   pu_updated_at (project_users (database w1) ! i) \<and>
                 pu_updated_at (project_users (database w1) ! i) <
                   pu_updated_at (project_users (database w2) ! i)))"
proof -
  let ?tbl = "project_users (database w)"
  let ?f1 = "\<lambda>r. if pu_id r = pu_id u
                 then r\<lparr>pu_is_active := \<not> pu_is_active u, pu_updated_at := t1\<rparr> else r"
  let ?f2 = "\<lambda>r. if pu_id r = pu_id u
                 then r\<lparr>pu_is_active := \<not> pu_is_active u1, pu_updated_at := t2\<rparr> else r"
  from first
  have w1: "w1 = worldOf (handleToggleActive NoFault NoFault t1 (pu_id u) (pu_is_active u) w)"
    by (simp add: clickToggle_def worldOf_def)
  then have tbl1: "project_users (database w1) = map ?f1 ?tbl"
    by (simp add: handleToggleActive_table)
  from w1 have "set (uv_users (view w1)) = set (project_users (database w1))"
    by (simp add: handleToggleActive_view set_selectRows_users)
  with shown tbl1 have "u1 \<in> set (map ?f1 ?tbl)" by simp
  with shown(2) have active1: "pu_is_active u1 = (\<not> pu_is_active u)"
    by (auto split: if_splits)
  from second have "w2 = worldOf (handleToggleActive NoFault fF t2 (pu_id u) (pu_is_active u1) w1)"
    by (simp add: clickToggle_def worldOf_def shown(2))
  then have tbl2: "project_users (database w2) = map ?f2 (map ?f1 ?tbl)"
    by (simp add: handleToggleActive_table tbl1)
  from tbl1 tbl2 active1 show ?thesis
    by simp
qed

text \<open>
  C8, the claim as written, fails: the handler writes the opposite of the flag the list
  shows, so when the fetch after the first update fails and the list still shows the old
  row, the second click writes the same value again and the stored flag stays flipped.
\<close>

theorem toggle_twice_stays_flipped:
  "map pu_is_active (project_users (database exampleUsersWorld)) = [True, True] \<and>
   exampleUser \<in> set (uv_users (view exampleUsersWorld)) \<and>
   clickToggle NoFault (ErrorResult ''offline'') 6000 exampleUser exampleUsersWorld =
     Normal toggledOnceStale \<and>
   map pu_is_active (project_users (database toggledOnceStale)) = [False, True] \<and>
   exampleUser \<in> set (uv_users (view toggledOnceStale)) \<and>
   clickToggle NoFault NoFault 7000 exampleUser toggledOnceStale = Normal toggledTwiceStale \<and>
   map pu_is_active (project_users (database toggledTwiceStale)) = [False, True]"
proof -
  have start: "map pu_is_active (project_users (database exampleUsersWorld)) = [True, True] \<and>
               exampleUser \<in> set (uv_users (view exampleUsersWorld))"
    by (simp add: exampleUsersWorld_def exampleDatabase_def initialUsersView_def
        exampleUser_def exampleUserNoPhone_def)
  have first: "clickToggle NoFault (ErrorResult ''offline'') 6000 exampleUser exampleUsersWorld =
                 Normal toggledOnceStale"
    unfolding toggledOnceStale_def by (rule clickToggle_Normal)
  have table1: "project_users (database toggledOnceStale) =
                  [exampleUser\<lparr>pu_is_active := False, pu_updated_at := 6000\<rparr>, exampleUserNoPhone]"
    by (simp add: toggledOnceStale_def clickToggle_table example_tables exampleUser_def
        exampleUserNoPhone_def)
  have view1: "uv_users (view toggledOnceStale) = uv_users (view exampleUsersWorld)"
    by (simp add: toggledOnceStale_def clickToggle_def handleToggleActive_stale_view)
  have second: "clickToggle NoFault NoFault 7000 exampleUser toggledOnceStale =
                  Normal toggledTwiceStale"
    unfolding toggledTwiceStale_def by (rule clickToggle_Normal)
  have table2: "project_users (database toggledTwiceStale) =
                  [exampleUser\<lparr>pu_is_active := False, pu_updated_at := 7000\<rparr>, exampleUserNoPhone]"
    by (simp add: toggledTwiceStale_def clickToggle_table table1 exampleUser_def
        exampleUserNoPhone_def)
  from start first table1 view1 second table2 show ?thesis
    by (simp add: exampleUserNoPhone_def)
qed

text \<open>
  C8, as amended. A click on the toggle button of a listed user whose update succeeds
  gives every row of the table with that user's id the opposite of the flag the list
  shows and the clock reading of the click as its update time, and changes no other row
  or field. When the update and the fetch after it succeed and the button of the same
  user is clicked again in the refreshed list, the update succeeding, every such row has
  the displayed flag again: a row whose flag was the displayed one is back at its
  original value. Its update time is the reading of the first click, then of the second,
  so it increases strictly on each toggle when the row's earlier stamp lies before the
  first reading and the first reading before the second.
\<close>

theorem toggle_twice_restores:
  "project_users (database (worldOf (clickToggle NoFault fF now u w))) =
     map (\<lambda>r. if pu_id r = pu_id u
               then r\<lparr>pu_is_active := \<not> pu_is_active u, pu_updated_at := now\<rparr> else r)
       (project_users (database w)) \<and>
   (clickToggle NoFault NoFault t u w = Normal w' \<and>
    u' \<in> set (uv_users (view w')) \<and> pu_id u' = pu_id u \<and>
    clickToggle NoFault fF t' u' w' = Normal w'' \<longrightarrow>
      length (project_users (database w')) = length (project_users (database w)) \<and>
      length (project_users (database w'')) = length (project_users (database w)) \<and>
      (\<forall>i < length (project_users (database w)).
         pu_id (project_users (database w) ! i) = pu_id u \<longrightarrow>
           project_users (database w') ! i =
             (project_users (database w) ! i)
               \<lparr>pu_is_active := \<not> pu_is_active u, pu_updated_at := t\<rparr> \<and>
           project_users (database w'') ! i =
             (project_users (database w) ! i)
               \<lparr>pu_is_active := pu_is_active u, pu_updated_at := t'\<rparr> \<and>
           (pu_is_active (project_users (database w) ! i) = pu_is_active u \<longrightarrow>
              pu_is_active (project_users (database w'') ! i) =
                pu_is_active (project_users (database w) ! i)) \<and>
           (pu_updated_at (project_users (database w) ! i) < t \<and> t < t' \<longrightarrow>
              pu_updated_at (project_users (database w) ! i) <
                pu_updated_at (project_users (database w') ! i) \<and>
              pu_updated_at (project_users (database w') ! i) <
                pu_updated_at (project_users (database w'') ! i))))"
proof (rule conjI)
  show "project_users (database (worldOf (clickToggle NoFault fF now u w))) =
     map (\<lambda>r. if pu_id r = pu_id u
               then r\<lparr>pu_is_active := \<not> pu_is_active u, pu_updated_at := now\<rparr> else r)
       (project_users (database w))"
    by (rule clickToggle_table)
next
  have rows: "length (project_users (database w')) = length (project_users (database w)) \<and>
      length (project_users (database w'')) = length (project_users (database w)) \<and>
      (\<forall>i < length (project_users (database w)).
         pu_id (project_users (database w) ! i) = pu_id u \<longrightarrow>
           project_users (database w') ! i =
             (project_users (database w) ! i)
               \<lparr>pu_is_active := \<not> pu_is_active u, pu_updated_at := t\<rparr> \<and>
           project_users (database w'') ! i =
             (project_users (database w) ! i)
               \<lparr>pu_is_active := pu_is_active u, pu_updated_at := t'\<rparr> \<and>
           (pu_is_active (project_users (database w) ! i) = pu_is_active u \<longrightarrow>
              pu_is_active (project_users (database w'') ! i) =
                pu_is_active (project_users (database w) ! i)) \<and>
           (pu_updated_at (project_users (database w) ! i) < t \<and> t < t' \<longrightarrow>
              pu_updated_at (project_users (database w) ! i) <
                pu_updated_at (project_users (database w') ! i) \<and>
              pu_updated_at (project_users (database w') ! i) <
                pu_updated_at (project_users (database w'') ! i)))"
    if h: "clickToggle NoFault NoFault t u w = Normal w' \<and>
           u' \<in> set (uv_users (view w')) \<and> pu_id u' = pu_id u \<and>
           clickToggle NoFault fF t' u' w' = Normal w''"
  proof -
    from h have first: "clickToggle NoFault NoFault t u w = Normal w'"
      and shown: "u' \<in> set (uv_users (view w'))" and same: "pu_id u' = pu_id u"
      and second: "clickToggle NoFault fF t' u' w' = Normal w''"
      by simp_all
    from two_toggles_rows [OF first shown same second] show ?thesis .
  qed
  then show "clickToggle NoFault NoFault t u w = Normal w' \<and>
    u' \<in> set (uv_users (view w')) \<and> pu_id u' = pu_id u \<and>
    clickToggle NoFault fF t' u' w' = Normal w'' \<longrightarrow>
      length (project_users (database w')) = length (project_users (database w)) \<and>
      length (project_users (database w'')) = length (project_users (database w)) \<and>
      (\<forall>i < length (project_users (database w)).
         pu_id (project_users (database w) ! i) = pu_id u \<longrightarrow>
           project_users (database w') ! i =
             (project_users (database w) ! i)
               \<lparr>pu_is_active := \<not> pu_is_active u, pu_updated_at := t\<rparr> \<and>
           project_users (database w'') ! i =
             (project_users (database w) ! i)
               \<lparr>pu_is_active := pu_is_active u, pu_updated_at := t'\<rparr> \<and>
           (pu_is_active (project_users (database w) ! i) = pu_is_active u \<longrightarrow>
              pu_is_active (project_users (database w'') ! i) =
                pu_is_active (project_users (database w) ! i)) \<and>
           (pu_updated_at (project_users (database w) ! i) < t \<and> t < t' \<longrightarrow>
              pu_updated_at (project_users (database w) ! i) <
                pu_updated_at (project_users (database w') ! i) \<and>
              pu_updated_at (project_users (database w') ! i) <
                pu_updated_at (project_users (database w'') ! i)))"
    by (rule impI)
qed

theorem toggle_twice_restores_witness:
  "clickToggle NoFault NoFault 6000 exampleUser exampleUsersWorld = Normal toggledOnce \<and>
   exampleUser\<lparr>pu_is_active := False, pu_updated_at := 6000\<rparr> \<in> set (uv_users (view toggledOnce)) \<and>
   clickToggle NoFault NoFault 7000 (exampleUser\<lparr>pu_is_active := False, pu_updated_at := 6000\<rparr>)
     toggledOnce = Normal toggledTwice \<and>
   project_users (database exampleUsersWorld) ! 0 = exampleUser \<and>
   pu_updated_at exampleUser < 6000 \<and> (6000 :: nat) < 7000 \<and>
   pu_is_active (project_users (database toggledOnce) ! 0) \<noteq> pu_is_active exampleUser \<and>
   pu_is_active (project_users (database toggledTwice) ! 0) = pu_is_active exampleUser \<and>
   pu_updated_at (project_users (database toggledOnce) ! 0) = 6000 \<and>
   pu_updated_at (project_users (database toggledTwice) ! 0) = 7000"
proof -
  have first: "clickToggle NoFault NoFault 6000 exampleUser exampleUsersWorld = Normal toggledOnce"
    unfolding toggledOnce_def by (rule clickToggle_Normal)
  have shown: "exampleUser\<lparr>pu_is_active := False, pu_updated_at := 6000\<rparr>
                 \<in> set (uv_users (view toggledOnce))"
    by (simp add: toggledOnce_def clickToggle_def handleToggleActive_view set_selectRows_users
        handleToggleActive_table example_tables exampleUser_def exampleUserNoPhone_def)
  have same: "pu_id (exampleUser\<lparr>pu_is_active := False, pu_updated_at := 6000\<rparr>) = pu_id exampleUser"
    by simp
  have second: "clickToggle NoFault NoFault 7000
      (exampleUser\<lparr>pu_is_active := False, pu_updated_at := 6000\<rparr>) toggledOnce = Normal toggledTwice"
    unfolding toggledTwice_def by (rule clickToggle_Normal)
  have row: "project_users (database exampleUsersWorld) ! 0 = exampleUser \<and>
             0 < length (project_users (database exampleUsersWorld)) \<and>
             pu_updated_at exampleUser < 6000 \<and> pu_is_active exampleUser"
    by (simp add: example_tables exampleUser_def)
  from toggle_twice_restores [where u = exampleUser and w = exampleUsersWorld
      and w' = toggledOnce and w'' = toggledTwice and t = 6000 and t' = 7000
      and fF = NoFault and now = 6000
      and u' = "exampleUser\<lparr>pu_is_active := False, pu_updated_at := 6000\<rparr>"]
    row first shown same second
  show ?thesis
    by auto
qed

section \<open>The buttons of the detail panel\<close>

lemma statusButtons_tokens:
  "(statusToken t \<in> set (statusButtons s)) = (t \<noteq> s \<and> t \<noteq> Reported)"
  by (cases s; cases t; simp add: statusButtons_def)

lemma statusButtons_shape:
  "set (statusButtons s) \<subseteq> range statusToken \<and> distinct (statusButtons s) \<and>
   length (statusButtons s) = (if s = Reported then 3 else 2)"
proof -
  have "statusButtons s = map statusToken (filter (\<lambda>t. t \<noteq> s) [In_progress, Cleaned, Rejected])"
    by (cases s; simp add: statusButtons_def)
  then have "set (statusButtons s) \<subseteq> range statusToken"
    by (metis image_mono set_map subset_UNIV)
  moreover have "distinct (statusButtons s) \<and>
      length (statusButtons s) = (if s = Reported then 3 else 2)"
    by (cases s; simp add: statusButtons_def)
  ultimately show ?thesis by blast
qed

text \<open>
  C1, the claim as written, fails: the panel of a record in progress has no button that
  leads to \<open>reported\<close>.
\<close>

theorem reported_not_offered:
  "Reported \<noteq> In_progress \<and> statusToken Reported \<notin> set (statusButtons In_progress)"
  by (simp add: statusButtons_def)

text \<open>
  C1, as amended. The panel offers a button for each of \<open>in_progress\<close>, \<open>cleaned\<close> and
  \<open>rejected\<close> other than the record's current status, and no other button: never one for
  the current status, never one for \<open>reported\<close>; three buttons for a reported record, two
  for any other. A click in the panel can therefore move the selected record from any
  status to any other status except \<open>reported\<close>, and a target without a button changes
  nothing.
\<close>

theorem statusButtons_offered:
  "(statusToken t \<in> set (statusButtons s)) = (t \<noteq> s \<and> t \<noteq> Reported) \<and>
   set (statusButtons s) \<subseteq> range statusToken \<and> distinct (statusButtons s) \<and>
   length (statusButtons s) = (if s = Reported then 3 else 2) \<and>
   (mv_selectedLocation (view w) = Some sel \<and> newStatus \<notin> set (statusButtons (tl_status sel)) \<longrightarrow>
      clickStatusButton fU fF now now' newStatus w = Normal w) \<and>
   (mv_selectedLocation (view w) = Some sel \<and> t \<noteq> tl_status sel \<and> t \<noteq> Reported \<longrightarrow>
      list_all2 (\<lambda>l l'. tl_id l = tl_id sel \<longrightarrow> tl_status l' = t)
        (trash_locations (database w))
        (trash_locations (database (worldOf
           (clickStatusButton NoFault fF now now' (statusToken t) w)))))"
proof -
  have noButton: "mv_selectedLocation (view w) = Some sel \<and>
      newStatus \<notin> set (statusButtons (tl_status sel)) \<longrightarrow>
      clickStatusButton fU fF now now' newStatus w = Normal w"
    by (simp add: clickStatusButton_def)
  have button: "mv_selectedLocation (view w) = Some sel \<and> t \<noteq> tl_status sel \<and> t \<noteq> Reported \<longrightarrow>
      list_all2 (\<lambda>l l'. tl_id l = tl_id sel \<longrightarrow> tl_status l' = t)
        (trash_locations (database w))
        (trash_locations (database (worldOf
           (clickStatusButton NoFault fF now now' (statusToken t) w))))"
    using status_change_sets [where newStatus = "statusToken t" and st = t
        and locationId = "tl_id sel" and now = now and now' = now' and w = w and fF = fF]
    by (auto simp add: clickStatusButton_def statusButtons_tokens statusOfToken_statusToken
        list_all2_conv_all_nth)
  from statusButtons_tokens [of t s] statusButtons_shape [of s] noButton button
  show ?thesis by blast
qed

theorem statusButtons_offered_witness:
  "mv_selectedLocation (view exampleMapWorld) = Some (joinUser [exampleUser] exampleLocation) \<and>
   tl_status (joinUser [exampleUser] exampleLocation) = In_progress \<and>
   statusButtons In_progress = [''cleaned'', ''rejected''] \<and>
   ''reported'' \<notin> set (statusButtons (tl_status (joinUser [exampleUser] exampleLocation))) \<and>
   clickStatusButton NoFault NoFault 6000 6001 ''reported'' exampleMapWorld =
     Normal exampleMapWorld \<and>
   Cleaned \<noteq> In_progress \<and> Cleaned \<noteq> Reported \<and>
   list_all2 (\<lambda>l l'. tl_status l' = Cleaned) [exampleLocation]
     (trash_locations (database (worldOf
        (clickStatusButton NoFault NoFault 6000 6001 (statusToken Cleaned) exampleMapWorld))))"
proof -
  have sel: "mv_selectedLocation (view exampleMapWorld) =
               Some (joinUser [exampleUser] exampleLocation) \<and>
             tl_status (joinUser [exampleUser] exampleLocation) = In_progress \<and>
             tl_id (joinUser [exampleUser] exampleLocation) = ''l1'' \<and>
             statusButtons In_progress = [''cleaned'', ''rejected'']"
    by (simp add: exampleMapWorld_def initialMapView_def joinUser_def exampleLocation_def
        statusButtons_def)
  from sel
    statusButtons_offered [where w = exampleMapWorld and t = Cleaned and s = In_progress
      and sel = "joinUser [exampleUser] exampleLocation" and newStatus = "''reported''"
      and fU = NoFault and fF = NoFault and now = 6000 and now' = 6001]
  show ?thesis
    by (auto simp add: example_tables exampleLocation_def list_all2_Cons1)
qed

end
